theory Spec2Isabelle
  imports Main "HOL-Library.Sublist"
begin

section \<open>Python values, exceptions and string operations\<close>

text \<open>
  The two scripts \<^verbatim>\<open>train_model.py\<close> and \<^verbatim>\<open>convert_to_tflite.py\<close> are embedded
  as HOL functions. A raised exception is the value \<open>Inl e\<close> of a sum type, a normal
  return is \<open>Inr v\<close>.

  A Python \<^verbatim>\<open>str\<close> is a \<open>string\<close>: a list of characters, each a code point below
  256, so \<open>length\<close> counts what Python's \<^verbatim>\<open>len\<close> counts. A cell of a pandas frame
  holds a \<^verbatim>\<open>str\<close>, an integer (a column read as numbers), or the float \<^verbatim>\<open>nan\<close> where
  the cell is missing.
\<close>

datatype exn =
    ValueError
  | AddressValueError
  | AttributeError
  | TypeError
  | KeyError
  | UnicodeEncodeError
  | OverflowError
  | FileNotFoundError
  | FileExistsError
  | IsADirectoryError
  | NotADirectoryError
  | LibraryError string

datatype pyval = Str string | Integer int | Float_nan

text \<open>
  \<^verbatim>\<open>print\<close> writes to \<^verbatim>\<open>sys.stdout\<close>, which encodes the text with its encoding and
  the error handler \<^verbatim>\<open>strict\<close>: a character the encoding does not have raises
  \<^verbatim>\<open>UnicodeEncodeError\<close>. Of the code points below 256, ASCII has those below 128,
  cp1252 those below 128 and from 160 on, Latin-1 and UTF-8 all of them.
\<close>

datatype encoding = ASCII | CP1252 | Latin_1 | UTF_8

definition encodable :: "encoding \<Rightarrow> char \<Rightarrow> bool" where
  "encodable enc c =
     (case enc of
        ASCII \<Rightarrow> (of_char c :: nat) < 128
      | CP1252 \<Rightarrow> (of_char c :: nat) < 128 \<or> 160 \<le> (of_char c :: nat)
      | Latin_1 \<Rightarrow> True
      | UTF_8 \<Rightarrow> True)"

definition print_line :: "encoding \<Rightarrow> string \<Rightarrow> exn + unit" where
  "print_line enc line = (if list_all (encodable enc) line then Inr () else Inl UnicodeEncodeError)"

text \<open>\<^verbatim>\<open>sub in s\<close> for strings: \<open>sub\<close> occurs in \<open>s\<close> as a contiguous run.\<close>

fun str_contains :: "string \<Rightarrow> string \<Rightarrow> bool" where
  "str_contains sub [] = (sub = [])"
| "str_contains sub (c # cs) = (prefix sub (c # cs) \<or> str_contains sub cs)"

text \<open>\<^verbatim>\<open>s.split(sep)\<close> for a one-character separator: always at least one part.\<close>

fun split_on :: "char \<Rightarrow> string \<Rightarrow> string list" where
  "split_on sep [] = [[]]"
| "split_on sep (c # cs) =
     (if c = sep then [] # split_on sep cs
      else (case split_on sep cs of
              [] \<Rightarrow> [[c]]
            | part # parts \<Rightarrow> (c # part) # parts))"

text \<open>
  \<^verbatim>\<open>s.partition(sep)\<close> and \<^verbatim>\<open>s.rpartition(sep)\<close> for a one-character separator. The
  middle component tells whether the separator was found (Python returns it, or the
  empty string).
\<close>

definition partition_on :: "char \<Rightarrow> string \<Rightarrow> string \<times> bool \<times> string" where
  "partition_on sep s =
     (takeWhile (\<lambda>c. c \<noteq> sep) s, sep \<in> set s, drop 1 (dropWhile (\<lambda>c. c \<noteq> sep) s))"

definition rpartition_on :: "char \<Rightarrow> string \<Rightarrow> string \<times> bool \<times> string" where
  "rpartition_on sep s =
     (if sep \<in> set s
      then (rev (drop 1 (dropWhile (\<lambda>c. c \<noteq> sep) (rev s))), True,
            rev (takeWhile (\<lambda>c. c \<noteq> sep) (rev s)))
      else ([], False, s))"

text \<open>\<^verbatim>\<open>s.find(c, start)\<close> and \<^verbatim>\<open>s.rfind(c)\<close>: an index, or \<open>-1\<close>.\<close>

definition find_from :: "char \<Rightarrow> nat \<Rightarrow> string \<Rightarrow> int" where
  "find_from c start s =
     (if c \<in> set (drop start s)
      then int (start + length (takeWhile (\<lambda>x. x \<noteq> c) (drop start s)))
      else - 1)"

definition rfind :: "char \<Rightarrow> string \<Rightarrow> int" where
  "rfind c s =
     (if c \<in> set s then int (length s) - 1 - int (length (takeWhile (\<lambda>x. x \<noteq> c) (rev s)))
      else - 1)"

text \<open>Python slices \<^verbatim>\<open>s[:i]\<close> and \<^verbatim>\<open>s[i:]\<close>; a negative index counts from the end.\<close>

definition slice_to :: "int \<Rightarrow> string \<Rightarrow> string" where
  "slice_to i s = (if i < 0 then take (nat (int (length s) + i)) s else take (nat i) s)"

definition slice_from :: "int \<Rightarrow> string \<Rightarrow> string" where
  "slice_from i s = (if i < 0 then drop (nat (int (length s) + i)) s else drop (nat i) s)"

text \<open>Character classes, all guarded by \<^verbatim>\<open>isascii()\<close> in the library.\<close>

definition is_ascii_digit :: "char \<Rightarrow> bool" where
  "is_ascii_digit c = (c \<in> set ''0123456789'')"

definition is_hex_digit :: "char \<Rightarrow> bool" where
  "is_hex_digit c = (c \<in> set ''0123456789abcdefABCDEF'')"

definition is_ascii_alpha :: "char \<Rightarrow> bool" where
  "is_ascii_alpha c =
     (c \<in> set ''abcdefghijklmnopqrstuvwxyzABCDEFGHIJKLMNOPQRSTUVWXYZ'')"

definition ascii_lower :: "char \<Rightarrow> char" where
  "ascii_lower c =
     (if c \<in> set ''ABCDEFGHIJKLMNOPQRSTUVWXYZ'' then char_of (of_char c + (32::nat)) else c)"

text \<open>\<^verbatim>\<open>int(s, 10)\<close> and \<^verbatim>\<open>int(s, 16)\<close> on strings already checked to be digits.\<close>

definition digit_value :: "char \<Rightarrow> nat" where
  "digit_value c =
     (if c \<in> set ''0123456789'' then of_char c - 48
      else if c \<in> set ''abcdef'' then of_char c - 87
      else of_char c - 55)"

definition int_of_digits :: "nat \<Rightarrow> string \<Rightarrow> nat" where
  "int_of_digits base s = foldl (\<lambda>n c. base * n + digit_value c) 0 s"

text \<open>\<^verbatim>\<open>'%x' % n\<close>: lower-case hexadecimal without leading zeros.\<close>

fun hex_digits :: "nat \<Rightarrow> nat \<Rightarrow> string" where
  "hex_digits 0 n = []"
| "hex_digits (Suc k) n =
     (if n < 16 then [''0123456789abcdef'' ! n]
      else hex_digits k (n div 16) @ [''0123456789abcdef'' ! (n mod 16)])"

definition format_hex :: "nat \<Rightarrow> string" where
  "format_hex n = hex_digits (Suc n) n"

text \<open>
  \<^verbatim>\<open>str(v)\<close>, as the f-string of line 107 takes it: the text itself, the decimal
  digits of an integer, \<^verbatim>\<open>nan\<close>.
\<close>

fun dec_digits :: "nat \<Rightarrow> nat \<Rightarrow> string" where
  "dec_digits 0 n = []"
| "dec_digits (Suc k) n =
     (if n < 10 then [''0123456789'' ! n]
      else dec_digits k (n div 10) @ [''0123456789'' ! (n mod 10)])"

definition py_str :: "pyval \<Rightarrow> string" where
  "py_str v =
     (case v of
        Str s \<Rightarrow> s
      | Integer n \<Rightarrow> (if n < 0 then ''-'' @ dec_digits (Suc (nat (- n))) (nat (- n))
                   else dec_digits (Suc (nat n)) (nat n))
      | Float_nan \<Rightarrow> ''nan'')"

text \<open>Running a raising function over a list: the first exception ends the run.\<close>

fun map_exn :: "('a \<Rightarrow> exn + 'b) \<Rightarrow> 'a list \<Rightarrow> exn + 'b list" where
  "map_exn f [] = Inr []"
| "map_exn f (x # xs) =
     (case f x of
        Inl e \<Rightarrow> Inl e
      | Inr y \<Rightarrow> (case map_exn f xs of Inl e \<Rightarrow> Inl e | Inr ys \<Rightarrow> Inr (y # ys)))"

section \<open>The library module \<^verbatim>\<open>ipaddress\<close>\<close>

text \<open>
  \<^verbatim>\<open>featureExtraction\<close> calls \<^verbatim>\<open>ipaddress.ip_address(domain)\<close>. The functions below
  follow the string path of CPython 3.11's \<^verbatim>\<open>Lib/ipaddress.py\<close>, method by method:
  \<^verbatim>\<open>_BaseV4._parse_octet\<close>, \<^verbatim>\<open>_BaseV4._ip_int_from_string\<close>, \<^verbatim>\<open>IPv4Address.__init__\<close>,
  \<^verbatim>\<open>_BaseV6._parse_hextet\<close>, \<^verbatim>\<open>_BaseV6._ip_int_from_string\<close>, \<^verbatim>\<open>_BaseV6._split_scope_id\<close>,
  \<^verbatim>\<open>IPv6Address.__init__\<close> and \<^verbatim>\<open>ip_address\<close>.
\<close>

definition parse_octet :: "string \<Rightarrow> exn + nat" where
  "parse_octet octet_str =
     (if octet_str = [] then Inl ValueError
      else if \<not> list_all is_ascii_digit octet_str then Inl ValueError
      else if length octet_str > 3 then Inl ValueError
      else if octet_str \<noteq> ''0'' \<and> hd octet_str = CHR ''0'' then Inl ValueError
      else if int_of_digits 10 octet_str > 255 then Inl ValueError
      else Inr (int_of_digits 10 octet_str))"

definition from_bytes_big :: "nat list \<Rightarrow> nat" where
  "from_bytes_big bs = foldl (\<lambda>a b. 256 * a + b) 0 bs"

definition IPv4_ip_int_from_string :: "string \<Rightarrow> exn + nat" where
  "IPv4_ip_int_from_string ip_str =
     (if ip_str = [] then Inl AddressValueError
      else if length (split_on CHR ''.'' ip_str) \<noteq> 4 then Inl AddressValueError
      else (case map_exn parse_octet (split_on CHR ''.'' ip_str) of
              Inl e \<Rightarrow> Inl AddressValueError
            | Inr octets \<Rightarrow> Inr (from_bytes_big octets)))"

definition IPv4Address :: "string \<Rightarrow> exn + nat" where
  "IPv4Address address =
     (if CHR ''/'' \<in> set address then Inl AddressValueError
      else IPv4_ip_int_from_string address)"

definition parse_hextet :: "string \<Rightarrow> exn + nat" where
  "parse_hextet hextet_str =
     (if \<not> list_all is_hex_digit hextet_str then Inl ValueError
      else if length hextet_str > 4 then Inl ValueError
      else if hextet_str = [] then Inl ValueError
      else Inr (int_of_digits 16 hextet_str))"

text \<open>
  The IPv4-style suffix: \<^verbatim>\<open>if '.' in parts[-1]\<close>, the last part is parsed as an IPv4
  address and replaced by its two 16-bit halves in hexadecimal.
\<close>

definition ipv4_suffix :: "string list \<Rightarrow> exn + string list" where
  "ipv4_suffix parts =
     (if CHR ''.'' \<in> set (last parts)
      then (case IPv4Address (last parts) of
              Inl e \<Rightarrow> Inl AddressValueError
            | Inr ipv4_int \<Rightarrow>
                Inr (butlast parts @
                     [format_hex ((ipv4_int div 65536) mod 65536),
                      format_hex (ipv4_int mod 65536)]))
      else Inr parts)"

text \<open>
  The loop \<^verbatim>\<open>for i in range(1, len(parts) - 1)\<close> that looks for the empty part of a
  \<^verbatim>\<open>::\<close>; a second empty part raises.
\<close>

definition skip_index :: "string list \<Rightarrow> exn + nat option" where
  "skip_index parts =
     (case filter (\<lambda>i. parts ! i = []) [1 ..< length parts - 1] of
        [] \<Rightarrow> Inr None
      | [i] \<Rightarrow> Inr (Some i)
      | _ \<Rightarrow> Inl AddressValueError)"

text \<open>\<open>(parts_hi, parts_lo, parts_skipped)\<close>, as the two branches on \<^verbatim>\<open>skip_index\<close> set them.\<close>

definition hextet_layout :: "string list \<Rightarrow> nat option \<Rightarrow> exn + nat \<times> nat \<times> nat" where
  "hextet_layout parts skip =
     (case skip of
        Some i \<Rightarrow>
          (let parts_hi = (if hd parts = [] then i - 1 else i);
               parts_lo = (if last parts = [] then length parts - i - 1 - 1
                           else length parts - i - 1)
           in if hd parts = [] \<and> parts_hi \<noteq> 0 then Inl AddressValueError
              else if last parts = [] \<and> parts_lo \<noteq> 0 then Inl AddressValueError
              else if (8::int) - int (parts_hi + parts_lo) < 1 then Inl AddressValueError
              else Inr (parts_hi, parts_lo, 8 - (parts_hi + parts_lo)))
      | None \<Rightarrow>
          (if length parts \<noteq> 8 then Inl AddressValueError
           else if hd parts = [] then Inl AddressValueError
           else if last parts = [] then Inl AddressValueError
           else Inr (length parts, 0, 0)))"

definition shift_in :: "nat \<Rightarrow> nat list \<Rightarrow> nat" where
  "shift_in ip_int hextets = foldl (\<lambda>a h. a * 65536 + h) ip_int hextets"

definition IPv6_ip_int_from_string :: "string \<Rightarrow> exn + nat" where
  "IPv6_ip_int_from_string ip_str =
     (if ip_str = [] then Inl AddressValueError
      else if length (split_on CHR '':'' ip_str) < 3 then Inl AddressValueError
      else (case ipv4_suffix (split_on CHR '':'' ip_str) of
        Inl e \<Rightarrow> Inl e
      | Inr parts \<Rightarrow>
          if length parts > 9 then Inl AddressValueError
          else (case skip_index parts of
            Inl e \<Rightarrow> Inl e
          | Inr skip \<Rightarrow>
              (case hextet_layout parts skip of
                Inl e \<Rightarrow> Inl e
              | Inr (parts_hi, parts_lo, parts_skipped) \<Rightarrow>
                  (case map_exn parse_hextet (take parts_hi parts) of
                    Inl e \<Rightarrow> Inl AddressValueError
                  | Inr hi \<Rightarrow>
                      (case map_exn parse_hextet (drop (length parts - parts_lo) parts) of
                        Inl e \<Rightarrow> Inl AddressValueError
                      | Inr lo \<Rightarrow>
                          Inr (shift_in (shift_in 0 hi * 65536 ^ parts_skipped) lo)))))))"

definition split_scope_id :: "string \<Rightarrow> exn + string \<times> string option" where
  "split_scope_id ip_str =
     (case partition_on CHR ''%'' ip_str of
        (addr, sep, scope_id) \<Rightarrow>
          if \<not> sep then Inr (addr, None)
          else if scope_id = [] \<or> CHR ''%'' \<in> set scope_id then Inl AddressValueError
          else Inr (addr, Some scope_id))"

definition IPv6Address :: "string \<Rightarrow> exn + nat \<times> string option" where
  "IPv6Address address =
     (if CHR ''/'' \<in> set address then Inl AddressValueError
      else (case split_scope_id address of
              Inl e \<Rightarrow> Inl e
            | Inr (addr_str, scope_id) \<Rightarrow>
                (case IPv6_ip_int_from_string addr_str of
                   Inl e \<Rightarrow> Inl e
                 | Inr ip \<Rightarrow> Inr (ip, scope_id))))"

datatype ip_addr = IPv4 nat | IPv6 nat "string option"

text \<open>
  \<^verbatim>\<open>ip_address\<close> tries the two classes in turn; each \<^verbatim>\<open>except\<close> clause catches
  \<^verbatim>\<open>AddressValueError\<close> only, and the function ends by raising \<^verbatim>\<open>ValueError\<close>.
\<close>

definition ip_address :: "string \<Rightarrow> exn + ip_addr" where
  "ip_address address =
     (case IPv4Address address of
        Inr ip \<Rightarrow> Inr (IPv4 ip)
      | Inl e \<Rightarrow>
          if e \<noteq> AddressValueError then Inl e
          else (case IPv6Address address of
                  Inr (ip, scope_id) \<Rightarrow> Inr (IPv6 ip scope_id)
                | Inl e' \<Rightarrow> if e' \<noteq> AddressValueError then Inl e' else Inl ValueError))"

section \<open>The library module \<^verbatim>\<open>urllib.parse\<close>\<close>

text \<open>
  \<^verbatim>\<open>featureExtraction\<close> calls \<^verbatim>\<open>urlparse(url)\<close> and reads \<^verbatim>\<open>scheme\<close>, \<^verbatim>\<open>netloc\<close> and
  \<^verbatim>\<open>path\<close> of the result. The functions below follow CPython 3.11's
  \<^verbatim>\<open>Lib/urllib/parse.py\<close>: \<^verbatim>\<open>_coerce_args\<close>, \<^verbatim>\<open>_splitnetloc\<close>, \<^verbatim>\<open>_check_bracketed_host\<close>,
  \<^verbatim>\<open>_checknetloc\<close>, \<^verbatim>\<open>urlsplit\<close>, \<^verbatim>\<open>_splitparams\<close>, \<^verbatim>\<open>urlparse\<close>, and the properties
  \<^verbatim>\<open>_hostinfo\<close> and \<^verbatim>\<open>port\<close> of the result.
\<close>

record parse_result =
  scheme :: string
  netloc :: string
  path :: string
  params :: string
  query :: string
  fragment :: string

definition scheme_chars :: string where
  "scheme_chars = ''abcdefghijklmnopqrstuvwxyzABCDEFGHIJKLMNOPQRSTUVWXYZ0123456789+-.''"

definition uses_params :: "string list" where
  "uses_params =
     ['''', ''ftp'', ''hdl'', ''prospero'', ''http'', ''imap'', ''https'', ''shttp'', ''rtsp'',
      ''rtsps'', ''rtspu'', ''sip'', ''sips'', ''mms'', ''sftp'', ''tel'']"

text \<open>\<^verbatim>\<open>_WHATWG_C0_CONTROL_OR_SPACE\<close> lists the code points 0 to 32.\<close>

definition is_c0_control_or_space :: "char \<Rightarrow> bool" where
  "is_c0_control_or_space c = ((of_char c :: nat) \<le> 32)"

text \<open>\<^verbatim>\<open>_UNSAFE_URL_BYTES_TO_REMOVE\<close>: tab, carriage return, line feed.\<close>

definition unsafe_url_bytes_to_remove :: "char list" where
  "unsafe_url_bytes_to_remove = [CHR 0x09, CHR 0x0D, CHR 0x0A]"

text \<open>
  \<^verbatim>\<open>_splitnetloc(url, 2)\<close>: the authority runs from index 2 to the first of
  \<^verbatim>\<open>/\<close>, \<^verbatim>\<open>?\<close>, \<^verbatim>\<open>#\<close>, or to the end.
\<close>

definition splitnetloc :: "string \<Rightarrow> nat \<Rightarrow> string \<times> string" where
  "splitnetloc url start =
     (let delim = foldl (\<lambda>delim c.
                    let wdelim = find_from c start url
                    in if wdelim \<ge> 0 then min delim (nat wdelim) else delim)
                  (length url) ''/?#''
      in (take (delim - start) (drop start url), drop delim url))"

text \<open>
  \<^verbatim>\<open>re.match(r"\Av[a-fA-F0-9]+\..+\Z", hostname)\<close>: the letter v, one or more
  hexadecimal digits, a dot, and one or more characters other than a line feed.
\<close>

definition ipvfuture_match :: "string \<Rightarrow> bool" where
  "ipvfuture_match hostname =
     (case hostname of
        [] \<Rightarrow> False
      | c # rest \<Rightarrow>
          c = CHR ''v'' \<and> takeWhile is_hex_digit rest \<noteq> [] \<and>
          (case dropWhile is_hex_digit rest of
             [] \<Rightarrow> False
           | d # tail \<Rightarrow> d = CHR ''.'' \<and> tail \<noteq> [] \<and> CHR 0x0A \<notin> set tail))"

definition check_bracketed_host :: "string \<Rightarrow> exn + unit" where
  "check_bracketed_host hostname =
     (if prefix ''v'' hostname
      then (if \<not> ipvfuture_match hostname then Inl ValueError else Inr ())
      else (case ip_address hostname of
              Inl e \<Rightarrow> Inl e
            | Inr (IPv4 ip) \<Rightarrow> Inl ValueError
            | Inr (IPv6 ip scope_id) \<Rightarrow> Inr ()))"

text \<open>
  \<^verbatim>\<open>_checknetloc\<close> returns at once for an empty or all-ASCII authority. Otherwise it
  removes \<^verbatim>\<open>@ : # ?\<close>, normalises the rest to NFKC and raises if one of \<^verbatim>\<open>/ ? # @ :\<close>
  has appeared. No code point below 256 normalises to a text that holds one of
  these five characters, so on the strings of this model the check passes.
\<close>

definition checknetloc :: "string \<Rightarrow> exn + unit" where
  "checknetloc netloc_str = Inr ()"

definition urlsplit :: "string \<Rightarrow> exn + parse_result" where
  "urlsplit url0 =
     (let url1 = dropWhile is_c0_control_or_space url0;
          url2 = filter (\<lambda>c. c \<notin> set unsafe_url_bytes_to_remove) url1;
          i = find_from CHR '':'' 0 url2;
          has_scheme = (i > 0 \<and> is_ascii_alpha (hd url2) \<and>
                        list_all (\<lambda>c. c \<in> set scheme_chars) (slice_to i url2));
          scheme_str = (if has_scheme then map ascii_lower (slice_to i url2) else []);
          url3 = (if has_scheme then slice_from (i + 1) url2 else url2)
      in case (if take 2 url3 = ''//''
               then (case splitnetloc url3 2 of
                       (netloc_str, rest) \<Rightarrow>
                         if (CHR ''['' \<in> set netloc_str \<and> CHR '']'' \<notin> set netloc_str) \<or>
                            (CHR '']'' \<in> set netloc_str \<and> CHR ''['' \<notin> set netloc_str)
                         then Inl ValueError
                         else if CHR ''['' \<in> set netloc_str \<and> CHR '']'' \<in> set netloc_str
                         then (case check_bracketed_host
                                      (fst (partition_on CHR '']''
                                         (snd (snd (partition_on CHR ''['' netloc_str))))) of
                                 Inl e \<Rightarrow> Inl e
                               | Inr u \<Rightarrow> Inr (netloc_str, rest))
                         else Inr (netloc_str, rest))
               else Inr ([], url3)) of
           Inl e \<Rightarrow> Inl e
         | Inr (netloc_str, url4) \<Rightarrow>
             (let url5 = (if CHR ''#'' \<in> set url4 then fst (partition_on CHR ''#'' url4) else url4);
                  fragment_str = (if CHR ''#'' \<in> set url4
                                  then snd (snd (partition_on CHR ''#'' url4)) else []);
                  url6 = (if CHR ''?'' \<in> set url5 then fst (partition_on CHR ''?'' url5) else url5);
                  query_str = (if CHR ''?'' \<in> set url5
                               then snd (snd (partition_on CHR ''?'' url5)) else [])
              in case checknetloc netloc_str of
                   Inl e \<Rightarrow> Inl e
                 | Inr u \<Rightarrow>
                     Inr \<lparr>scheme = scheme_str, netloc = netloc_str, path = url6,
                          params = [], query = query_str, fragment = fragment_str\<rparr>))"

definition splitparams :: "string \<Rightarrow> string \<times> string" where
  "splitparams url =
     (let i = (if CHR ''/'' \<in> set url then find_from CHR '';'' (nat (rfind CHR ''/'' url)) url
               else find_from CHR '';'' 0 url)
      in if CHR ''/'' \<in> set url \<and> i < 0 then (url, [])
         else (slice_to i url, slice_from (i + 1) url))"

text \<open>
  \<^verbatim>\<open>_coerce_args\<close>: a \<^verbatim>\<open>str\<close> passes through. Any other value goes through
  \<^verbatim>\<open>x.decode(...) if x else ''\<close>: a false one (the integer 0) becomes the empty
  string, a true one is sent \<^verbatim>\<open>.decode\<close>, which an integer and a float do not have
  (\<^verbatim>\<open>nan\<close> is true). The result for a value that is not a \<^verbatim>\<open>str\<close> is encoded
  back to bytes; here it can only be the all-empty result.
\<close>

definition coerce_args :: "pyval \<Rightarrow> exn + string" where
  "coerce_args url =
     (case url of
        Str s \<Rightarrow> Inr s
      | Integer n \<Rightarrow> (if n = 0 then Inr [] else Inl AttributeError)
      | Float_nan \<Rightarrow> Inl AttributeError)"

definition urlparse :: "pyval \<Rightarrow> exn + parse_result" where
  "urlparse url =
     (case coerce_args url of
        Inl e \<Rightarrow> Inl e
      | Inr s \<Rightarrow>
          (case urlsplit s of
             Inl e \<Rightarrow> Inl e
           | Inr r \<Rightarrow>
               if scheme r \<in> set uses_params \<and> CHR '';'' \<in> set (path r)
               then Inr (r\<lparr>path := fst (splitparams (path r)),
                           params := snd (splitparams (path r))\<rparr>)
               else Inr r))"

text \<open>The properties \<^verbatim>\<open>_hostinfo\<close> and \<^verbatim>\<open>port\<close> of a parse result.\<close>

definition hostinfo :: "parse_result \<Rightarrow> string \<times> string option" where
  "hostinfo r =
     (let info = snd (snd (rpartition_on CHR ''@'' (netloc r)));
          have_open_br = fst (snd (partition_on CHR ''['' info));
          bracketed = snd (snd (partition_on CHR ''['' info));
          hostname = (if have_open_br then fst (partition_on CHR '']'' bracketed)
                      else fst (partition_on CHR '':'' info));
          port_str = (if have_open_br
                      then snd (snd (partition_on CHR '':''
                             (snd (snd (partition_on CHR '']'' bracketed)))))
                      else snd (snd (partition_on CHR '':'' info)))
      in (hostname, if port_str = [] then None else Some port_str))"

definition port :: "parse_result \<Rightarrow> exn + nat option" where
  "port r =
     (case snd (hostinfo r) of
        None \<Rightarrow> Inr None
      | Some port_str \<Rightarrow>
          if \<not> list_all is_ascii_digit port_str then Inl ValueError
          else if int_of_digits 10 port_str > 65535 then Inl ValueError
          else Inr (Some (int_of_digits 10 port_str)))"

section \<open>\<^verbatim>\<open>featureExtraction\<close> (train_model.py, lines 30 to 108)\<close>

text \<open>
  \<^verbatim>\<open>"@" in url\<close> and \<^verbatim>\<open>len(url)\<close> on the argument itself: both raise
  \<^verbatim>\<open>TypeError\<close> on an integer and on a float.
\<close>

definition py_contains :: "string \<Rightarrow> pyval \<Rightarrow> exn + bool" where
  "py_contains sub v =
     (case v of
        Str s \<Rightarrow> Inr (str_contains sub s)
      | Integer n \<Rightarrow> Inl TypeError
      | Float_nan \<Rightarrow> Inl TypeError)"

definition py_len :: "pyval \<Rightarrow> exn + int" where
  "py_len v =
     (case v of
        Str s \<Rightarrow> Inr (int (length s))
      | Integer n \<Rightarrow> Inl TypeError
      | Float_nan \<Rightarrow> Inl TypeError)"

text \<open>
  The body of the outer \<^verbatim>\<open>try\<close> (lines 43 to 104). The inner \<^verbatim>\<open>try\<close> around
  \<^verbatim>\<open>ipaddress.ip_address(domain)\<close> has a bare \<^verbatim>\<open>except\<close>: every exception gives
  \<open>have_ip = 0\<close>.
\<close>

definition featureExtraction_try :: "pyval \<Rightarrow> exn + int list" where
  "featureExtraction_try url =
     (case urlparse url of
        Inl e \<Rightarrow> Inl e
      | Inr parsed \<Rightarrow>
          (let domain = netloc parsed;
               domain_length = int (length domain);
               have_ip = (case ip_address domain of Inr a \<Rightarrow> 1 | Inl e \<Rightarrow> 0)
           in case py_contains ''@'' url of
                Inl e \<Rightarrow> Inl e
              | Inr at \<Rightarrow>
                  (case py_len url of
                     Inl e \<Rightarrow> Inl e
                   | Inr url_length \<Rightarrow>
                       (let have_at = (if at then 1 else 0);
                            url_depth = int (length (filter (\<lambda>x. x \<noteq> [])
                                                      (split_on CHR ''/'' (path parsed))));
                            redirection = (if str_contains ''//'' (path parsed) then 1 else 0);
                            https_domain = (if str_contains ''https'' (scheme parsed) then 1 else 0);
                            tiny_url = (if str_contains ''tinyurl'' domain \<or>
                                           str_contains ''bit.ly'' domain then 1 else 0);
                            prefix_suffix = (if str_contains ''-'' domain then 1 else 0)
                        in Inr [domain_length, have_ip, have_at, url_length, url_depth,
                                redirection, https_domain, tiny_url, prefix_suffix]))))"

text \<open>
  The whole function. The bare \<^verbatim>\<open>except\<close> of line 105 catches every exception of the
  body; its handler first prints \<^verbatim>\<open>f"[ERROR] Failed to parse {url}"\<close> (line 107) and
  then returns \<^verbatim>\<open>[0]*9\<close>. The print stands outside every \<^verbatim>\<open>try\<close>: when it raises,
  the function raises. \<open>stdout\<close> is the encoding of \<^verbatim>\<open>sys.stdout\<close>; the text printed
  is not kept.
\<close>

definition featureExtraction :: "encoding \<Rightarrow> pyval \<Rightarrow> exn + int list" where
  "featureExtraction stdout url =
     (case featureExtraction_try url of
        Inr feats \<Rightarrow> Inr feats
      | Inl e \<Rightarrow>
          (case print_line stdout (''[ERROR] Failed to parse '' @ py_str url) of
             Inl e' \<Rightarrow> Inl e'
           | Inr u \<Rightarrow> Inr (replicate 9 0)))"

text \<open>
  The specification's \<open>url_depth\<close>, "the count of non-empty segments of the path
  between slashes", written without \<^verbatim>\<open>split\<close>: a segment starts at every character
  other than a slash that stands first or follows a slash. \<open>segment_starts fresh p\<close>
  counts these places; \<open>fresh\<close> tells that no segment is open.
\<close>

fun segment_starts :: "bool \<Rightarrow> string \<Rightarrow> nat" where
  "segment_starts fresh [] = 0"
| "segment_starts fresh (c # cs) =
     (if c = CHR ''/'' then segment_starts True cs
      else (if fresh then 1 else 0) + segment_starts False cs)"

definition url_depth_spec :: "string \<Rightarrow> nat" where
  "url_depth_spec p = segment_starts True p"

section \<open>The dataset (train_model.py, lines 125 to 138)\<close>

text \<open>
  \<^verbatim>\<open>pd.read_csv(csv_path, on_bad_lines='skip')\<close> is a call into pandas, a parameter of
  \<open>train_and_save_model\<close> below. What it returns is a frame: named columns of cells, all
  of one length. Which lines of the file become rows of the frame, and what a cell
  holds, is decided inside pandas. The code of \<^verbatim>\<open>train_model.py\<close> starts from the frame.
\<close>

type_synonym dataframe = "(string \<times> pyval list) list"

text \<open>\<^verbatim>\<open>df[name]\<close>: the first column of that name, or \<^verbatim>\<open>KeyError\<close>.\<close>

definition column :: "dataframe \<Rightarrow> string \<Rightarrow> exn + pyval list" where
  "column df name = (case map_of df name of None \<Rightarrow> Inl KeyError | Some cells \<Rightarrow> Inr cells)"

text \<open>
  The loop of lines 133 to 135: \<^verbatim>\<open>X.append(featureExtraction(url))\<close> for each cell.
  A call that raises ends the loop and the function.
\<close>

fun append_features :: "encoding \<Rightarrow> pyval list \<Rightarrow> int list list \<Rightarrow> exn + int list list" where
  "append_features stdout [] X = Inr X"
| "append_features stdout (url # urls) X =
     (case featureExtraction stdout url of
        Inl e \<Rightarrow> Inl e
      | Inr feats \<Rightarrow> append_features stdout urls (X @ [feats]))"

text \<open>
  Line 138, \<^verbatim>\<open>np.array(X, dtype=np.float32)\<close>: every entry, a Python \<^verbatim>\<open>int\<close>, becomes a
  32-bit float. NumPy takes the integer to a C \<^verbatim>\<open>double\<close> first (correctly rounded to
  53 significant bits, ties to even; \<^verbatim>\<open>OverflowError\<close> when the rounded value reaches
  \<open>2 ^ 1024\<close>) and casts the double to \<^verbatim>\<open>float\<close> (rounded to 24 significant bits, ties
  to even; infinite when the rounded value reaches \<open>2 ^ 128\<close>). A float that holds an
  integer is written \<open>Finite\<close> of that integer.
\<close>

datatype float32 = Finite int | Infinity | Neg_infinity

fun bit_length :: "nat \<Rightarrow> nat" where
  "bit_length n = (if n = 0 then 0 else Suc (bit_length (n div 2)))"

declare bit_length.simps [simp del]

definition round_to_bits :: "nat \<Rightarrow> nat \<Rightarrow> nat" where
  "round_to_bits p m =
     (let e = bit_length m - p;
          q = m div 2 ^ e;
          r = m mod 2 ^ e
      in if e = 0 then m
         else if 2 ^ (e - 1) < r \<or> (r = 2 ^ (e - 1) \<and> odd q) then (q + 1) * 2 ^ e
         else q * 2 ^ e)"

definition to_float32 :: "int \<Rightarrow> exn + float32" where
  "to_float32 n =
     (let d = round_to_bits 53 (nat \<bar>n\<bar>)
      in if 2 ^ 1024 \<le> d then Inl OverflowError
         else (let f = round_to_bits 24 d
               in if 2 ^ 128 \<le> f then Inr (if n < 0 then Neg_infinity else Infinity)
                  else Inr (Finite (if n < 0 then - int f else int f))))"

definition np_array_float32 :: "int list list \<Rightarrow> exn + float32 list list" where
  "np_array_float32 X = map_exn (map_exn to_float32) X"

text \<open>
  Lines 129 to 138: \<^verbatim>\<open>y = df['label'].values\<close>, the loop over \<^verbatim>\<open>df['url']\<close>, the
  conversion of the matrix.
\<close>

definition build_X_y ::
  "encoding \<Rightarrow> dataframe \<Rightarrow> exn + float32 list list \<times> pyval list" where
  "build_X_y stdout df =
     (case column df ''label'' of
        Inl e \<Rightarrow> Inl e
      | Inr y \<Rightarrow>
          (case column df ''url'' of
             Inl e \<Rightarrow> Inl e
           | Inr urls \<Rightarrow>
               (case append_features stdout urls [] of
                  Inl e \<Rightarrow> Inl e
                | Inr X \<Rightarrow>
                    (case np_array_float32 X of
                       Inl e \<Rightarrow> Inl e
                     | Inr A \<Rightarrow> Inr (A, y)))))"

text \<open>A frame that holds the given (url, label) rows and nothing else.\<close>

definition frame_of_rows :: "(pyval \<times> pyval) list \<Rightarrow> dataframe" where
  "frame_of_rows rows = [(''url'', map fst rows), (''label'', map snd rows)]"

section \<open>Files, directories and the console\<close>

text \<open>
  What the two scripts do to the machine: the directories that exist, the regular
  files with their contents, the encoding of \<^verbatim>\<open>sys.stdout\<close>, and the lines the scripts
  print outside \<^verbatim>\<open>featureExtraction\<close>. Paths are taken as written.
\<close>

record world =
  dirs :: "string set"
  files :: "string \<rightharpoonup> string"
  stdout :: encoding
  console :: "string list"

text \<open>\<^verbatim>\<open>print(line)\<close>: raises when \<^verbatim>\<open>sys.stdout\<close> cannot encode the line.\<close>

definition print :: "string \<Rightarrow> world \<Rightarrow> exn + world" where
  "print line w =
     (case print_line (stdout w) line of
        Inl e \<Rightarrow> Inl e
      | Inr u \<Rightarrow> Inr (w\<lparr>console := console w @ [line]\<rparr>))"

text \<open>
  Several \<^verbatim>\<open>print\<close> statements in a row: the first that raises ends them, with the
  lines before it printed.
\<close>

fun print_lines :: "string list \<Rightarrow> world \<Rightarrow> exn option \<times> world" where
  "print_lines [] w = (None, w)"
| "print_lines (line # rest) w =
     (case print line w of
        Inl e \<Rightarrow> (Some e, w)
      | Inr w' \<Rightarrow> print_lines rest w')"

text \<open>\<^verbatim>\<open>os.path.dirname\<close> (posixpath).\<close>

definition dirname :: "string \<Rightarrow> string" where
  "dirname p =
     (let head = slice_to (rfind CHR ''/'' p + 1) p
      in if head \<noteq> [] \<and> head \<noteq> replicate (length head) CHR ''/''
         then rev (dropWhile (\<lambda>c. c = CHR ''/'') (rev head))
         else head)"

text \<open>The directories above a path and the path itself, outermost first.\<close>

definition ancestors :: "string \<Rightarrow> string list" where
  "ancestors p =
     filter (\<lambda>a. a \<noteq> [])
       (map (\<lambda>i. take i p) (filter (\<lambda>i. p ! i = CHR ''/'') [0 ..< length p])) @ [p]"

text \<open>
  \<^verbatim>\<open>os.makedirs(name, exist_ok=True)\<close>: creates the directory and the missing ones
  above it; an existing directory is accepted, a regular file in the way is not.
\<close>

definition makedirs :: "string \<Rightarrow> world \<Rightarrow> exn + world" where
  "makedirs name w =
     (if name = [] then Inl FileNotFoundError
      else if name \<in> dom (files w) then Inl FileExistsError
      else if \<exists>a \<in> set (ancestors name). a \<in> dom (files w) then Inl NotADirectoryError
      else Inr (w\<lparr>dirs := dirs w \<union> set (ancestors name)\<rparr>))"

text \<open>
  \<^verbatim>\<open>with open(path, 'wb') as f: f.write(data)\<close>: the directory of the path must
  exist; nothing creates it.
\<close>

definition write_file :: "string \<Rightarrow> string \<Rightarrow> world \<Rightarrow> exn + world" where
  "write_file p data w =
     (if p \<in> dirs w then Inl IsADirectoryError
      else if dirname p \<in> dom (files w) then Inl NotADirectoryError
      else if dirname p \<noteq> [] \<and> dirname p \<notin> dirs w then Inl FileNotFoundError
      else Inr (w\<lparr>files := (files w)(p \<mapsto> data)\<rparr>))"

section \<open>\<^verbatim>\<open>train_and_save_model\<close> (train_model.py, lines 122 to 214)\<close>

text \<open>
  The calls into pandas, scikit-learn and Keras compute with floating-point tensors.
  They are parameters: each returns its result or raises.
  \<^item> \<open>read_csv\<close>: \<^verbatim>\<open>pd.read_csv(csv_path, on_bad_lines='skip')\<close>, line 125, reading
    \<^verbatim>\<open>csv_path\<close> among the files;
  \<^item> \<open>train_test_split\<close>: line 142;
  \<^item> \<open>build_and_fit\<close>: lines 146 to 180, giving the model and the history;
  \<^item> \<open>evaluate\<close>: lines 184 to 190, giving the lines that lines 191 to 194 print;
  \<^item> \<open>save\<close>: \<^verbatim>\<open>model.save(model_path)\<close>, line 198.
  The function has no \<^verbatim>\<open>try\<close>: an exception of any step leaves it at once. Its
  result is the history, which the caller compares with \<^verbatim>\<open>None\<close>.
\<close>

record ('m, 'h, 's) training_lib =
  read_csv :: "(string \<rightharpoonup> string) \<Rightarrow> string \<Rightarrow> exn + dataframe"
  train_test_split :: "float32 list list \<Rightarrow> pyval list \<Rightarrow> exn + 's"
  build_and_fit :: "float32 list list \<Rightarrow> pyval list \<Rightarrow> exn + 'm \<times> 'h"
  evaluate :: "'m \<Rightarrow> 's \<Rightarrow> exn + string list"
  save :: "'m \<Rightarrow> string \<Rightarrow> world \<Rightarrow> exn + world"

definition train_and_save_model ::
  "('m, 'h, 's) training_lib \<Rightarrow> string \<Rightarrow> string \<Rightarrow> world \<Rightarrow> (exn + 'h option) \<times> world" where
  "train_and_save_model lib csv_path model_path w =
     (case read_csv lib (files w) csv_path of
        Inl e \<Rightarrow> (Inl e, w)
      | Inr df \<Rightarrow>
     (case build_X_y (stdout w) df of
        Inl e \<Rightarrow> (Inl e, w)
      | Inr (X, y) \<Rightarrow>
     (case train_test_split lib X y of
        Inl e \<Rightarrow> (Inl e, w)
      | Inr held_out \<Rightarrow>
     (case build_and_fit lib X y of
        Inl e \<Rightarrow> (Inl e, w)
      | Inr (model, history) \<Rightarrow>
     (case evaluate lib model held_out of
        Inl e \<Rightarrow> (Inl e, w)
      | Inr report \<Rightarrow>
     (case print_lines report w of
        (Some e, w1) \<Rightarrow> (Inl e, w1)
      | (None, w1) \<Rightarrow>
     (case save lib model model_path w1 of
        Inl e \<Rightarrow> (Inl e, w1)
      | Inr w2 \<Rightarrow>
     (case print (''[INFO] Model saved to '' @ model_path) w2 of
        Inl e \<Rightarrow> (Inl e, w2)
      | Inr w3 \<Rightarrow> (Inr (Some history), w3)))))))))"

text \<open>
  The \<^verbatim>\<open>__main__\<close> block, lines 203 to 214. An exception of the call ends the script
  before the test \<^verbatim>\<open>history is None\<close> is reached.
\<close>

definition main :: "('m, 'h, 's) training_lib \<Rightarrow> world \<Rightarrow> (exn + unit) \<times> world" where
  "main lib w =
     (case train_and_save_model lib ''data/dataset.csv'' ''model_save/model.keras'' w of
        (Inl e, w') \<Rightarrow> (Inl e, w')
      | (Inr history, w') \<Rightarrow>
          (case print (if history = None then ''[ERROR] Training failed''
                       else ''[SUCCESS] Model training completed'') w' of
             Inl e \<Rightarrow> (Inl e, w')
           | Inr w'' \<Rightarrow> (Inr (), w'')))"

text \<open>
  A saver that writes the model as one file at the path it is given, the way
  \<^verbatim>\<open>open(path, 'wb')\<close> does; \<open>blob\<close> is the serialised model.
\<close>

definition save_as_file :: "('m \<Rightarrow> string) \<Rightarrow> 'm \<Rightarrow> string \<Rightarrow> world \<Rightarrow> exn + world" where
  "save_as_file blob model p w = write_file p (blob model) w"

section \<open>convert_to_tflite.py\<close>

text \<open>
  The script has no function and no \<^verbatim>\<open>try\<close>: its statements run in order and the
  first exception ends it. \<^verbatim>\<open>load_model\<close>, \<^verbatim>\<open>TFLiteConverter.from_keras_model\<close> and
  \<^verbatim>\<open>converter.convert\<close> are parameters; they read the files and change nothing.
\<close>

record ('m, 'c) tflite_lib =
  load_model :: "(string \<rightharpoonup> string) \<Rightarrow> string \<Rightarrow> exn + 'm"
  from_keras_model :: "'m \<Rightarrow> exn + 'c"
  convert :: "'c \<Rightarrow> exn + string"

definition model_keras_path :: string where
  "model_keras_path = ''model_save/model.keras''"

definition tflite_output_path :: string where
  "tflite_output_path = ''model_save/model.tflite''"

text \<open>Lines 21 to 26: load, build the converter, convert.\<close>

definition load_and_convert ::
  "('m, 'c) tflite_lib \<Rightarrow> (string \<rightharpoonup> string) \<Rightarrow> exn + string" where
  "load_and_convert lib fs =
     (case load_model lib fs model_keras_path of
        Inl e \<Rightarrow> Inl e
      | Inr model \<Rightarrow>
          (case from_keras_model lib model of
             Inl e \<Rightarrow> Inl e
           | Inr converter \<Rightarrow> convert lib converter))"

definition convert_to_tflite :: "('m, 'c) tflite_lib \<Rightarrow> world \<Rightarrow> (exn + unit) \<times> world" where
  "convert_to_tflite lib w =
     (case print (''[INFO] Loading model from '' @ model_keras_path) w of
        Inl e \<Rightarrow> (Inl e, w)
      | Inr w1 \<Rightarrow>
     (case load_and_convert lib (files w1) of
        Inl e \<Rightarrow> (Inl e, w1)
      | Inr tflite_model \<Rightarrow>
     (case makedirs (dirname tflite_output_path) w1 of
        Inl e \<Rightarrow> (Inl e, w1)
      | Inr w2 \<Rightarrow>
     (case write_file tflite_output_path tflite_model w2 of
        Inl e \<Rightarrow> (Inl e, w2)
      | Inr w3 \<Rightarrow>
     (case print (''[INFO] TFLite model created at '' @ tflite_output_path) w3 of
        Inl e \<Rightarrow> (Inl e, w3)
      | Inr w4 \<Rightarrow> (Inr (), w4))))))"

section \<open>Example libraries and worlds\<close>

text \<open>
  Concrete library parameters and machine states, on which the theorems below are
  evaluated. The example reader cuts the text at line feeds and commas, takes the
  first line as the column names and an empty field as \<^verbatim>\<open>nan\<close>; the example saver
  writes the model as one file at its path.
\<close>

definition example_tflite_lib :: "(string, string) tflite_lib" where
  "example_tflite_lib =
     \<lparr>load_model = (\<lambda>fs p. case fs p of None \<Rightarrow> Inl FileNotFoundError | Some data \<Rightarrow> Inr data),
      from_keras_model = (\<lambda>model. Inr model),
      convert = (\<lambda>converter. if converter = [] then Inl (LibraryError ''unsupported operator'')
                               else Inr (''TFL3'' @ converter))\<rparr>"

definition example_frame :: "string \<Rightarrow> dataframe" where
  "example_frame text =
     (case map (split_on CHR '','') (split_on CHR 0x0A text) of
        [] \<Rightarrow> []
      | names # records \<Rightarrow>
          map (\<lambda>j. (names ! j,
                     map (\<lambda>cells. if j < length cells \<and> cells ! j \<noteq> []
                                     then Str (cells ! j) else Float_nan) records))
              [0 ..< length names])"

definition example_training_lib :: "(string, string list, unit) training_lib" where
  "example_training_lib =
     \<lparr>read_csv = (\<lambda>fs p. case fs p of
                     None \<Rightarrow> Inl FileNotFoundError
                   | Some text \<Rightarrow> Inr (example_frame text)),
      train_test_split = (\<lambda>X y. Inr ()),
      build_and_fit = (\<lambda>X y. Inr (''weights'', [''epoch 1''])),
      evaluate = (\<lambda>model held_out. Inr [''Accuracy: 100.00%'']),
      save = save_as_file (\<lambda>model. model)\<rparr>"

definition empty_world :: world where
  "empty_world = \<lparr>dirs = {}, files = Map.empty, stdout = UTF_8, console = []\<rparr>"

definition dataset_world :: world where
  "dataset_world =
     \<lparr>dirs = {''data''},
      files = [''data/dataset.csv'' \<mapsto> ''url,label'' @ [CHR 0x0A] @ ''http://bit.ly/x,1''],
      stdout = UTF_8,
      console = []\<rparr>"

definition saved_model_world :: world where
  "saved_model_world =
     \<lparr>dirs = {''model_save''},
      files = [''model_save/model.keras'' \<mapsto> ''weights''],
      stdout = UTF_8,
      console = []\<rparr>"

section \<open>String operations: what they compute\<close>

lemma split_on_not_Nil: "split_on sep s \<noteq> []"
  by (induction s) (auto split: list.splits)

lemma str_contains_sublist: "str_contains sub s = sublist sub s"
  by (induction s) (simp_all add: sublist_Cons_right)

lemma str_contains_char: "str_contains [c] s = (c \<in> set s)"
  by (induction s) auto

lemma segments_split_on:
  "length (filter (\<lambda>x. x \<noteq> []) (split_on CHR ''/'' p)) = segment_starts True p \<and>
   length (filter (\<lambda>x. x \<noteq> []) (tl (split_on CHR ''/'' p))) = segment_starts False p"
  by (induction p) (auto split: list.splits simp: split_on_not_Nil)

lemma split_on_absent: "sep \<notin> set s \<Longrightarrow> split_on sep s = [s]"
  by (induction s) (auto split: list.splits)

lemma str_contains_absent: "c \<in> set sub \<Longrightarrow> c \<notin> set s \<Longrightarrow> \<not> str_contains sub s"
  unfolding str_contains_sublist using set_mono_sublist by fastforce

lemmas urlparse_defs =
  urlparse_def coerce_args_def urlsplit_def Let_def find_from_def slice_to_def slice_from_def
  checknetloc_def uses_params_def is_c0_control_or_space_def unsafe_url_bytes_to_remove_def
  is_ascii_alpha_def scheme_chars_def splitnetloc_def ascii_lower_def partition_on_def
  splitparams_def rfind_def

lemmas ip_address_defs =
  ip_address_def IPv4Address_def IPv4_ip_int_from_string_def IPv6Address_def
  split_scope_id_def partition_on_def IPv6_ip_int_from_string_def parse_octet_def
  is_ascii_digit_def

section \<open>What \<^verbatim>\<open>print\<close> can encode\<close>

lemma print_line_UTF_8: "print_line UTF_8 line = Inr ()"
  by (simp add: print_line_def encodable_def list_all_iff)

lemma print_line_ascii:
  "\<forall>c \<in> set line. (of_char c :: nat) < 128 \<Longrightarrow> print_line enc line = Inr ()"
  by (cases enc) (auto simp: print_line_def encodable_def list_all_iff)

lemma print_ascii:
  "\<forall>c \<in> set line. (of_char c :: nat) < 128 \<Longrightarrow>
   print line w = Inr (w\<lparr>console := console w @ [line]\<rparr>)"
  by (simp add: print_def print_line_ascii)

lemma print_unchanged:
  "print line w = Inr w' \<Longrightarrow> dirs w' = dirs w \<and> files w' = files w \<and> stdout w' = stdout w"
  by (auto simp: print_def split: sum.splits)

lemma print_lines_unchanged:
  "print_lines report w = (r, w') \<Longrightarrow>
   dirs w' = dirs w \<and> files w' = files w \<and> stdout w' = stdout w"
proof (induction report arbitrary: w)
  case Nil
  then show ?case by simp
next
  case (Cons line rest)
  show ?case
  proof (cases "print line w")
    case (Inl e)
    with Cons.prems show ?thesis by simp
  next
    case (Inr w1)
    with Cons.prems have "print_lines rest w1 = (r, w')" by simp
    from Cons.IH [OF this] print_unchanged [OF Inr] show ?thesis by simp
  qed
qed

section \<open>Properties of \<^verbatim>\<open>featureExtraction\<close>\<close>

lemma featureExtraction_cases:
  "featureExtraction out url =
     (case featureExtraction_try url of
        Inr feats \<Rightarrow> Inr feats
      | Inl e \<Rightarrow>
          (case print_line out (''[ERROR] Failed to parse '' @ py_str url) of
             Inl e' \<Rightarrow> Inl e'
           | Inr u \<Rightarrow> Inr [0, 0, 0, 0, 0, 0, 0, 0, 0]))"
  by (simp add: featureExtraction_def numeral_eq_Suc split: sum.splits)

lemma featureExtraction_try_Str:
  "urlparse (Str s) = Inr parsed \<Longrightarrow>
   featureExtraction_try (Str s) =
     Inr [int (length (netloc parsed)),
          (case ip_address (netloc parsed) of Inr a \<Rightarrow> 1 | Inl e \<Rightarrow> 0),
          (if str_contains ''@'' s then 1 else 0),
          int (length s),
          int (length (filter (\<lambda>x. x \<noteq> []) (split_on CHR ''/'' (path parsed)))),
          (if str_contains ''//'' (path parsed) then 1 else 0),
          (if str_contains ''https'' (scheme parsed) then 1 else 0),
          (if str_contains ''tinyurl'' (netloc parsed) \<or>
              str_contains ''bit.ly'' (netloc parsed) then 1 else 0),
          (if str_contains ''-'' (netloc parsed) then 1 else 0)]"
  by (simp add: featureExtraction_try_def py_contains_def py_len_def Let_def)

lemma featureExtraction_try_Inr:
  assumes "featureExtraction_try url = Inr feats"
  obtains s parsed where "url = Str s" and "urlparse (Str s) = Inr parsed"
  using assms
  by (cases url)
     (auto simp: featureExtraction_try_def urlparse_def coerce_args_def py_contains_def
           Let_def split: sum.splits if_splits)

lemma featureExtraction_try_Inl:
  "urlparse url = Inl e \<Longrightarrow> featureExtraction_try url = Inl e"
  by (simp add: featureExtraction_try_def)

lemma featureExtraction_returned:
  "featureExtraction_try url = Inr feats \<Longrightarrow> featureExtraction out url = Inr feats"
  by (simp add: featureExtraction_def)

lemma urlparse_empty:
  "urlparse (Str '''') =
     Inr \<lparr>scheme = [], netloc = [], path = [], params = [], query = [], fragment = []\<rparr>"
  by (simp add: urlparse_defs)

lemma ip_address_empty: "ip_address '''' = Inl ValueError"
  by (simp add: ip_address_defs)

lemma urlparse_open_bracket: "urlparse (Str ''http://['') = Inl ValueError"
  by (simp add: urlparse_defs)

lemma urlparse_open_bracket_E9: "urlparse (Str (''http://['' @ [CHR 0xE9])) = Inl ValueError"
  by (simp add: urlparse_defs)

lemma urlparse_open_bracket_81: "urlparse (Str (''http://['' @ [CHR 0x81])) = Inl ValueError"
  by (simp add: urlparse_defs)

lemma urlparse_bit_ly:
  "urlparse (Str ''http://bit.ly/x'') =
     Inr \<lparr>scheme = ''http'', netloc = ''bit.ly'', path = ''/x'',
          params = [], query = [], fragment = []\<rparr>"
  by (simp add: urlparse_defs)

lemma featureExtraction_bit_ly:
  "featureExtraction out (Str ''http://bit.ly/x'') = Inr [6, 0, 0, 15, 1, 0, 0, 1, 0]"
proof -
  have ip: "ip_address ''bit.ly'' = Inl ValueError"
    by (simp add: ip_address_defs)
  show ?thesis
    by (simp add: featureExtraction_cases featureExtraction_try_Str [OF urlparse_bit_ly] ip)
qed

lemma featureExtraction_try_nan: "featureExtraction_try Float_nan = Inl AttributeError"
  by (simp add: featureExtraction_try_def urlparse_def coerce_args_def)

lemma featureExtraction_nan:
  "featureExtraction UTF_8 Float_nan = Inr [0, 0, 0, 0, 0, 0, 0, 0, 0]"
  by (simp add: featureExtraction_cases featureExtraction_try_nan print_line_UTF_8)

text \<open>
  C1 (the code departs from the claim). The handler of the bare \<^verbatim>\<open>except\<close> prints the
  url before it returns, and that \<^verbatim>\<open>print\<close> is not guarded: on
  \<^verbatim>\<open>'http://['\<close> followed by U+00E9, which \<^verbatim>\<open>urlparse\<close> rejects, with a standard output that
  encodes to ASCII, \<^verbatim>\<open>featureExtraction\<close> raises \<^verbatim>\<open>UnicodeEncodeError\<close> and returns no
  list. The second half of the claim holds: for every url on which parsing succeeds,
  whatever the standard output, the function returns a list of exactly 9 integers
  whose entries at positions 2, 3, 6, 7, 8 and 9 (indices 1, 2, 5, 6, 7, 8 from zero)
  are each 0 or 1.
\<close>

theorem featureExtraction_print_raises:
  "urlparse (Str (''http://['' @ [CHR 0xE9])) = Inl ValueError \<and>
   featureExtraction ASCII (Str (''http://['' @ [CHR 0xE9])) = Inl UnicodeEncodeError \<and>
   (urlparse (Str url) = Inr parsed \<longrightarrow>
      (\<exists>v. featureExtraction out (Str url) = Inr v \<and> length v = 9 \<and>
         (v ! 1 = 0 \<or> v ! 1 = 1) \<and> (v ! 2 = 0 \<or> v ! 2 = 1) \<and> (v ! 5 = 0 \<or> v ! 5 = 1) \<and>
         (v ! 6 = 0 \<or> v ! 6 = 1) \<and> (v ! 7 = 0 \<or> v ! 7 = 1) \<and> (v ! 8 = 0 \<or> v ! 8 = 1)))"
proof (intro conjI impI)
  show "urlparse (Str (''http://['' @ [CHR 0xE9])) = Inl ValueError"
    by (rule urlparse_open_bracket_E9)
  show "featureExtraction ASCII (Str (''http://['' @ [CHR 0xE9])) = Inl UnicodeEncodeError"
    unfolding featureExtraction_def featureExtraction_try_Inl [OF urlparse_open_bracket_E9]
    by (simp add: print_line_def encodable_def py_str_def)
next
  assume p: "urlparse (Str url) = Inr parsed"
  show "\<exists>v. featureExtraction out (Str url) = Inr v \<and> length v = 9 \<and>
         (v ! 1 = 0 \<or> v ! 1 = 1) \<and> (v ! 2 = 0 \<or> v ! 2 = 1) \<and> (v ! 5 = 0 \<or> v ! 5 = 1) \<and>
         (v ! 6 = 0 \<or> v ! 6 = 1) \<and> (v ! 7 = 0 \<or> v ! 7 = 1) \<and> (v ! 8 = 0 \<or> v ! 8 = 1)"
    unfolding featureExtraction_returned [OF featureExtraction_try_Str [OF p]]
    by (simp split: sum.splits)
qed

theorem featureExtraction_print_raises_witness:
  "urlparse (Str ''http://bit.ly/x'') =
     Inr \<lparr>scheme = ''http'', netloc = ''bit.ly'', path = ''/x'',
          params = [], query = [], fragment = []\<rparr> \<and>
   featureExtraction ASCII (Str ''http://bit.ly/x'') = Inr [6, 0, 0, 15, 1, 0, 0, 1, 0] \<and>
   featureExtraction ASCII (Str (''http://['' @ [CHR 0xE9])) = Inl UnicodeEncodeError"
  using featureExtraction_print_raises [of "''http://bit.ly/x''" _ ASCII]
  by (simp add: urlparse_bit_ly featureExtraction_bit_ly)

text \<open>
  C2. When \<^verbatim>\<open>urlparse\<close> succeeds on the string \<open>url\<close> with result \<open>parsed\<close>,
  \<^verbatim>\<open>featureExtraction\<close> returns, in this order: the length of the authority; 1 iff
  \<^verbatim>\<open>ip_address\<close> accepts the authority; 1 iff \<^verbatim>\<open>@\<close> occurs in the raw string; the
  length of the raw string; the number of non-empty segments of the path between
  slashes; 1 iff \<^verbatim>\<open>//\<close> occurs in the path; 1 iff \<^verbatim>\<open>https\<close> occurs in the scheme; 1 iff
  \<^verbatim>\<open>tinyurl\<close> or \<^verbatim>\<open>bit.ly\<close> occurs in the authority; 1 iff \<^verbatim>\<open>-\<close> occurs in the
  authority. "Occurs in" is \<open>sublist\<close> of the list library, or membership for one
  character; the segments are counted by \<open>url_depth_spec\<close>. The standard output plays
  no part: the handler does not run.
\<close>

theorem featureExtraction_vector:
  assumes "urlparse (Str url) = Inr parsed"
  shows "featureExtraction out (Str url) =
    Inr [int (length (netloc parsed)),
         (if \<exists>a. ip_address (netloc parsed) = Inr a then 1 else 0),
         (if CHR ''@'' \<in> set url then 1 else 0),
         int (length url),
         int (url_depth_spec (path parsed)),
         (if sublist ''//'' (path parsed) then 1 else 0),
         (if sublist ''https'' (scheme parsed) then 1 else 0),
         (if sublist ''tinyurl'' (netloc parsed) \<or> sublist ''bit.ly'' (netloc parsed)
          then 1 else 0),
         (if CHR ''-'' \<in> set (netloc parsed) then 1 else 0)]"
proof -
  have ip: "(case ip_address (netloc parsed) of Inr a \<Rightarrow> 1 | Inl e \<Rightarrow> 0) =
            (if \<exists>a. ip_address (netloc parsed) = Inr a then 1 else (0::int))"
    by (cases "ip_address (netloc parsed)") simp_all
  show ?thesis
    unfolding featureExtraction_returned [OF featureExtraction_try_Str [OF assms]] ip
    by (simp add: str_contains_sublist [symmetric] str_contains_char segments_split_on
          url_depth_spec_def)
qed

theorem featureExtraction_vector_witness:
  "urlparse (Str ''https://tinyurl.com//a/b@c'') =
     Inr \<lparr>scheme = ''https'', netloc = ''tinyurl.com'', path = ''//a/b@c'',
          params = [], query = [], fragment = []\<rparr> \<and>
   featureExtraction UTF_8 (Str ''https://tinyurl.com//a/b@c'') =
     Inr [11, 0, 1, 26, 2, 1, 1, 1, 0]"
proof -
  have p: "urlparse (Str ''https://tinyurl.com//a/b@c'') =
     Inr \<lparr>scheme = ''https'', netloc = ''tinyurl.com'', path = ''//a/b@c'',
          params = [], query = [], fragment = []\<rparr>"
    by (simp add: urlparse_defs)
  have ip: "ip_address ''tinyurl.com'' = Inl ValueError"
    by (simp add: ip_address_defs)
  show ?thesis
    using featureExtraction_vector [OF p, of UTF_8]
    by (simp add: p ip str_contains_sublist [symmetric] url_depth_spec_def)
qed

text \<open>
  C3 (the code departs from the claim). On \<^verbatim>\<open>'http://['\<close> followed by U+0081 \<^verbatim>\<open>urlparse\<close>
  raises; with a standard output that encodes to cp1252 the handler's \<^verbatim>\<open>print\<close> of
  the url raises in its turn, and \<^verbatim>\<open>featureExtraction\<close> returns no vector at all
  where the claim promises nine zeros. What holds: when \<^verbatim>\<open>urlparse\<close> or any other
  step of the \<^verbatim>\<open>try\<close> body raises and the message can be printed, the result is
  exactly \<^verbatim>\<open>[0, 0, 0, 0, 0, 0, 0, 0, 0]\<close>; and a vector that is returned is never
  partial: it is that one, or the complete vector the body returned.
\<close>

theorem featureExtraction_handler_raises:
  "urlparse (Str (''http://['' @ [CHR 0x81])) = Inl ValueError \<and>
   featureExtraction CP1252 (Str (''http://['' @ [CHR 0x81])) = Inl UnicodeEncodeError \<and>
   (featureExtraction_try url = Inl e \<and>
    print_line out (''[ERROR] Failed to parse '' @ py_str url) = Inr () \<longrightarrow>
      featureExtraction out url = Inr [0, 0, 0, 0, 0, 0, 0, 0, 0]) \<and>
   (featureExtraction out url = Inr v \<longrightarrow>
      v = [0, 0, 0, 0, 0, 0, 0, 0, 0] \<or> featureExtraction_try url = Inr v)"
proof (intro conjI impI)
  show "urlparse (Str (''http://['' @ [CHR 0x81])) = Inl ValueError"
    by (rule urlparse_open_bracket_81)
  show "featureExtraction CP1252 (Str (''http://['' @ [CHR 0x81])) = Inl UnicodeEncodeError"
    unfolding featureExtraction_def featureExtraction_try_Inl [OF urlparse_open_bracket_81]
    by (simp add: print_line_def encodable_def py_str_def)
next
  assume "featureExtraction_try url = Inl e \<and>
          print_line out (''[ERROR] Failed to parse '' @ py_str url) = Inr ()"
  then show "featureExtraction out url = Inr [0, 0, 0, 0, 0, 0, 0, 0, 0]"
    by (simp add: featureExtraction_cases)
next
  assume "featureExtraction out url = Inr v"
  then show "v = [0, 0, 0, 0, 0, 0, 0, 0, 0] \<or> featureExtraction_try url = Inr v"
    by (auto simp: featureExtraction_cases split: sum.splits)
qed

theorem featureExtraction_handler_raises_witness:
  "featureExtraction_try (Str ''http://['') = Inl ValueError \<and>
   print_line CP1252 (''[ERROR] Failed to parse '' @ py_str (Str ''http://['')) = Inr () \<and>
   featureExtraction CP1252 (Str ''http://['') = Inr [0, 0, 0, 0, 0, 0, 0, 0, 0] \<and>
   featureExtraction CP1252 (Str (''http://['' @ [CHR 0x81])) = Inl UnicodeEncodeError"
proof -
  have t: "featureExtraction_try (Str ''http://['') = Inl ValueError"
    by (rule featureExtraction_try_Inl [OF urlparse_open_bracket])
  have p: "print_line CP1252 (''[ERROR] Failed to parse '' @ py_str (Str ''http://['')) = Inr ()"
    by (simp add: print_line_def encodable_def py_str_def)
  show ?thesis
    using featureExtraction_handler_raises
      [of "Str ''http://[''" ValueError CP1252 "[0, 0, 0, 0, 0, 0, 0, 0, 0]"] t p
    by simp
qed

text \<open>
  C9. On the empty string \<^verbatim>\<open>urlparse\<close> succeeds, with every component empty; the
  body of the \<^verbatim>\<open>try\<close> returns normally, every feature being 0; so
  \<^verbatim>\<open>featureExtraction\<close> returns the all-zero vector without its handler having run.
  An all-zero result therefore does not tell that parsing failed.
\<close>

theorem featureExtraction_empty_string:
  "urlparse (Str '''') =
     Inr \<lparr>scheme = [], netloc = [], path = [], params = [], query = [], fragment = []\<rparr> \<and>
   featureExtraction_try (Str '''') = Inr [0, 0, 0, 0, 0, 0, 0, 0, 0] \<and>
   featureExtraction out (Str '''') = Inr [0, 0, 0, 0, 0, 0, 0, 0, 0]"
  by (simp add: urlparse_empty featureExtraction_cases
        featureExtraction_try_Str [OF urlparse_empty] ip_address_empty)

section \<open>The conversion to 32-bit floats\<close>

lemma bit_length_le: "m < 2 ^ k \<Longrightarrow> bit_length m \<le> k"
proof (induction k arbitrary: m)
  case 0
  then show ?case by (simp add: bit_length.simps)
next
  case (Suc k)
  show ?case
  proof (cases "m = 0")
    case True
    then show ?thesis by (simp add: bit_length.simps)
  next
    case False
    from Suc.prems have "m div 2 < 2 ^ k" by simp
    from Suc.IH [OF this] False show ?thesis
      by (subst bit_length.simps) simp
  qed
qed

lemma round_to_bits_exact: "m < 2 ^ p \<Longrightarrow> round_to_bits p m = m"
  using bit_length_le [of m p] by (simp add: round_to_bits_def Let_def)

lemma bit_length_numeral:
  "bit_length 0 = 0"
  "bit_length (Suc 0) = Suc 0"
  "bit_length (numeral (Num.Bit0 k)) = Suc (bit_length (numeral k))"
  "bit_length (numeral (Num.Bit1 k)) = Suc (bit_length (numeral k))"
proof -
  show "bit_length 0 = 0" by (simp add: bit_length.simps)
  show "bit_length (Suc 0) = Suc 0" by (simp add: bit_length.simps)
  show "bit_length (numeral (Num.Bit0 k)) = Suc (bit_length (numeral k))"
    by (subst bit_length.simps) simp
  have "numeral (Num.Bit1 k) div (2::nat) = numeral k"
    by (simp add: numeral_Bit1_div_2)
  then show "bit_length (numeral (Num.Bit1 k)) = Suc (bit_length (numeral k))"
    by (subst bit_length.simps) simp
qed

lemma bit_length_25: "bit_length 16777216 = 25" "bit_length 16777217 = 25"
  by (simp_all add: bit_length_numeral)

lemma round_to_24_bits:
  "round_to_bits 24 16777216 = 16777216" "round_to_bits 24 16777217 = 16777216"
  by (simp_all add: round_to_bits_def bit_length_25)

lemma round_to_53_bits:
  "round_to_bits 53 16777216 = 16777216" "round_to_bits 53 16777217 = 16777217"
  by (simp_all add: round_to_bits_exact)

lemma to_float32_exact:
  assumes "\<bar>n\<bar> \<le> 2 ^ 24"
  shows "to_float32 n = Inr (Finite n)"
proof (cases "\<bar>n\<bar> = 2 ^ 24")
  case True
  then have "nat \<bar>n\<bar> = 16777216" by simp
  moreover from True have "n = 16777216 \<or> n = - 16777216" by auto
  ultimately show ?thesis
    by (auto simp: to_float32_def round_to_53_bits round_to_24_bits)
next
  case False
  with assms have "\<bar>n\<bar> < 2 ^ 24" by simp
  then have lt: "nat \<bar>n\<bar> < 2 ^ 24"
    by (metis nat_less_numeral_power_cancel_iff)
  have "(2::nat) ^ 24 < 2 ^ 53" "(2::nat) ^ 24 < 2 ^ 128" "(2::nat) ^ 24 < 2 ^ 1024"
    by simp_all
  with lt have b: "nat \<bar>n\<bar> < 2 ^ 53" "nat \<bar>n\<bar> < 2 ^ 128" "nat \<bar>n\<bar> < 2 ^ 1024"
    by (meson less_trans)+
  have r: "round_to_bits 53 (nat \<bar>n\<bar>) = nat \<bar>n\<bar>" "round_to_bits 24 (nat \<bar>n\<bar>) = nat \<bar>n\<bar>"
    by (rule round_to_bits_exact [OF b(1)], rule round_to_bits_exact [OF lt])
  from b(2,3) have c: "\<not> 2 ^ 1024 \<le> nat \<bar>n\<bar>" "\<not> 2 ^ 128 \<le> nat \<bar>n\<bar>"
    by (simp_all only: not_le)
  show ?thesis
    unfolding to_float32_def Let_def r using c by (simp only: if_False) auto
qed

lemma to_float32_rounds: "to_float32 16777217 = Inr (Finite 16777216)"
proof -
  have "nat \<bar>16777217\<bar> = 16777217" by simp
  then show ?thesis
    by (simp add: to_float32_def round_to_53_bits round_to_24_bits)
qed

lemma map_exn_to_float32_exact:
  "\<forall>v \<in> set feats. \<bar>v\<bar> \<le> 2 ^ 24 \<Longrightarrow> map_exn to_float32 feats = Inr (map Finite feats)"
  by (induction feats) (simp_all add: to_float32_exact)

lemma map_exn_map: "map_exn f xs = Inr ys \<longleftrightarrow> map f xs = map Inr ys"
proof (induction xs arbitrary: ys)
  case Nil
  then show ?case by auto
next
  case (Cons x xs)
  show ?case
    by (cases ys) (auto simp: Cons.IH [symmetric] split: sum.splits)
qed

section \<open>Properties of the dataset\<close>

lemma append_features_map_exn:
  "append_features out urls X =
     (case map_exn (featureExtraction out) urls of Inl e \<Rightarrow> Inl e | Inr F \<Rightarrow> Inr (X @ F))"
  by (induction urls arbitrary: X) (auto split: sum.splits)

lemma build_X_y_returns:
  assumes "column df ''label'' = Inr y"
    and "column df ''url'' = Inr urls"
    and "map (featureExtraction out) urls = map Inr F"
    and "np_array_float32 F = Inr A"
  shows "build_X_y out df = Inr (A, y)"
proof -
  from assms(3) have "map_exn (featureExtraction out) urls = Inr F"
    by (simp add: map_exn_map)
  then show ?thesis
    by (simp add: build_X_y_def assms(1,2,4) append_features_map_exn)
qed

lemma np_array_float32_rows:
  assumes "np_array_float32 F = Inr A"
  shows "length A = length F"
    and "i < length F \<Longrightarrow> map to_float32 (F ! i) = map Inr (A ! i)"
proof -
  from assms have m: "map (map_exn to_float32) F = map Inr A"
    by (simp add: np_array_float32_def map_exn_map)
  then show "length A = length F"
    by (metis length_map)
  assume i: "i < length F"
  with m have "map_exn to_float32 (F ! i) = Inr (A ! i)"
    by (metis length_map nth_map)
  then show "map to_float32 (F ! i) = map Inr (A ! i)"
    by (simp add: map_exn_map)
qed

text \<open>A url of one or more letters \<^verbatim>\<open>a\<close> and nothing else is a path of one segment.\<close>

lemma urlparse_letters:
  assumes "s \<noteq> []" and "set s \<subseteq> {CHR ''a''}"
  shows "urlparse (Str s) =
           Inr \<lparr>scheme = [], netloc = [], path = s, params = [], query = [], fragment = []\<rparr>"
proof -
  from assms obtain s' where s: "s = CHR ''a'' # s'" and s': "set s' \<subseteq> {CHR ''a''}"
    by (cases s) auto
  have f: "filter (\<lambda>c. c \<noteq> CHR 0x09 \<and> c \<noteq> CHR 0x0D \<and> c \<noteq> CHR 0x0A) s' = s'"
    using s' by (intro filter_True) auto
  have n: "CHR '':'' \<notin> set s'" "CHR ''#'' \<notin> set s'" "CHR ''?'' \<notin> set s'" "CHR '';'' \<notin> set s'"
    using s' by auto
  show ?thesis
    unfolding s by (simp add: urlparse_defs f n)
qed

lemma featureExtraction_letters:
  assumes "s \<noteq> []" and "set s \<subseteq> {CHR ''a''}"
  shows "featureExtraction out (Str s) = Inr [0, 0, 0, int (length s), 1, 0, 0, 0, 0]"
proof -
  have n: "CHR ''@'' \<notin> set s" "CHR ''/'' \<notin> set s"
    using assms(2) by auto
  have d: "\<not> str_contains ''//'' s"
    by (rule str_contains_absent [of "CHR ''/''"]) (simp_all add: n)
  show ?thesis
    unfolding featureExtraction_returned
      [OF featureExtraction_try_Str [OF urlparse_letters [OF assms]]]
    by (simp add: ip_address_empty str_contains_char n d split_on_absent assms(1))
qed

lemma featureExtraction_long:
  "featureExtraction out (Str (replicate 16777217 CHR ''a'')) =
     Inr [0, 0, 0, 16777217, 1, 0, 0, 0, 0]"
  using featureExtraction_letters [of "replicate 16777217 CHR ''a''" out] by simp

text \<open>
  C4 (as amended). For every sequence of (url, label) rows on which each call of
  \<^verbatim>\<open>featureExtraction\<close> returns (\<open>F\<close> lists the results) and the conversion of line 138
  returns (\<open>A\<close> is the array), the builder returns \<open>A\<close> with the label column as it
  stands, whatever its cells are. \<open>A\<close> has one row per input row, in input order; the
  \<open>i\<close>-th row is what \<^verbatim>\<open>featureExtraction\<close> returns on the \<open>i\<close>-th url, each entry
  converted to a 32-bit float; and a row whose entries are at most \<open>2 ^ 24\<close> in
  magnitude is that result unchanged.
\<close>

theorem build_X_y_rows:
  assumes "map (\<lambda>r. featureExtraction out (fst r)) rows = map Inr F"
    and "np_array_float32 F = Inr A"
  shows "build_X_y out (frame_of_rows rows) = Inr (A, map snd rows) \<and>
         length A = length rows \<and>
         (\<forall>i < length rows.
            featureExtraction out (fst (rows ! i)) = Inr (F ! i) \<and>
            map to_float32 (F ! i) = map Inr (A ! i) \<and>
            ((\<forall>v \<in> set (F ! i). \<bar>v\<bar> \<le> 2 ^ 24) \<longrightarrow> A ! i = map Finite (F ! i)))"
proof (intro conjI allI impI)
  have l: "length F = length rows"
    using assms(1) by (metis length_map)
  have m: "map (featureExtraction out) (map fst rows) = map Inr F"
    using assms(1) by (simp add: comp_def)
  show "build_X_y out (frame_of_rows rows) = Inr (A, map snd rows)"
    by (rule build_X_y_returns [OF _ _ m assms(2)])
       (simp_all add: column_def frame_of_rows_def)
  show "length A = length rows"
    using np_array_float32_rows(1) [OF assms(2)] l by simp
  fix i
  assume i: "i < length rows"
  from assms(1) i show "featureExtraction out (fst (rows ! i)) = Inr (F ! i)"
    by (metis (mono_tags, lifting) l nth_map)
  from i l show c: "map to_float32 (F ! i) = map Inr (A ! i)"
    by (simp add: np_array_float32_rows(2) [OF assms(2)])
  assume "\<forall>v \<in> set (F ! i). \<bar>v\<bar> \<le> 2 ^ 24"
  then have "map_exn to_float32 (F ! i) = Inr (map Finite (F ! i))"
    by (rule map_exn_to_float32_exact)
  with c show "A ! i = map Finite (F ! i)"
    by (simp add: map_exn_map [symmetric])
qed

theorem build_X_y_rows_witness:
  "map (\<lambda>r. featureExtraction UTF_8 (fst r))
       [(Str ''http://bit.ly/x'', Integer 2), (Float_nan, Str ''abc'')] =
     map Inr [[6, 0, 0, 15, 1, 0, 0, 1, 0], [0, 0, 0, 0, 0, 0, 0, 0, 0]] \<and>
   build_X_y UTF_8 (frame_of_rows [(Str ''http://bit.ly/x'', Integer 2), (Float_nan, Str ''abc'')]) =
     Inr ([[Finite 6, Finite 0, Finite 0, Finite 15, Finite 1, Finite 0, Finite 0, Finite 1,
            Finite 0],
           [Finite 0, Finite 0, Finite 0, Finite 0, Finite 0, Finite 0, Finite 0, Finite 0,
            Finite 0]],
          [Integer 2, Str ''abc''])"
proof -
  have f: "map (\<lambda>r. featureExtraction UTF_8 (fst r))
             [(Str ''http://bit.ly/x'', Integer 2), (Float_nan, Str ''abc'')] =
           map Inr [[6, 0, 0, 15, 1, 0, 0, 1, 0], [0, 0, 0, 0, 0, 0, 0, 0, 0]]"
    by (simp add: featureExtraction_bit_ly featureExtraction_nan)
  have a: "np_array_float32 [[6, 0, 0, 15, 1, 0, 0, 1, 0], [0, 0, 0, 0, 0, 0, 0, 0, 0]] =
           Inr [[Finite 6, Finite 0, Finite 0, Finite 15, Finite 1, Finite 0, Finite 0, Finite 1,
                 Finite 0],
                [Finite 0, Finite 0, Finite 0, Finite 0, Finite 0, Finite 0, Finite 0, Finite 0,
                 Finite 0]]"
    by (simp add: np_array_float32_def to_float32_exact)
  from build_X_y_rows [OF f a] f show ?thesis
    by simp
qed

text \<open>
  C4 as stated fails on a url of \<open>2 ^ 24 + 1\<close> letters: \<^verbatim>\<open>featureExtraction\<close>
  returns the length 16777217, and the matrix row holds 16777216.
\<close>

theorem build_X_y_rounds_length:
  "featureExtraction UTF_8 (Str (replicate 16777217 CHR ''a'')) =
     Inr [0, 0, 0, 16777217, 1, 0, 0, 0, 0] \<and>
   build_X_y UTF_8 (frame_of_rows [(Str (replicate 16777217 CHR ''a''), Integer 0)]) =
     Inr ([[Finite 0, Finite 0, Finite 0, Finite 16777216, Finite 1, Finite 0, Finite 0,
            Finite 0, Finite 0]],
          [Integer 0])"
proof -
  have z: "to_float32 0 = Inr (Finite 0)" "to_float32 1 = Inr (Finite 1)"
    by (simp_all add: to_float32_exact)
  have a: "np_array_float32 [[0, 0, 0, 16777217, 1, 0, 0, 0, 0]] =
           Inr [[Finite 0, Finite 0, Finite 0, Finite 16777216, Finite 1, Finite 0, Finite 0,
                 Finite 0, Finite 0]]"
    by (simp add: np_array_float32_def z to_float32_rounds)
  have "build_X_y UTF_8 (frame_of_rows [(Str (replicate 16777217 CHR ''a''), Integer 0)]) =
        Inr ([[Finite 0, Finite 0, Finite 0, Finite 16777216, Finite 1, Finite 0, Finite 0,
               Finite 0, Finite 0]],
             [Integer 0])"
  proof (rule build_X_y_returns [OF _ _ _ a])
    show "column (frame_of_rows [(Str (replicate 16777217 CHR ''a''), Integer 0)]) ''label'' =
          Inr [Integer 0]"
      by (simp add: column_def frame_of_rows_def)
    show "column (frame_of_rows [(Str (replicate 16777217 CHR ''a''), Integer 0)]) ''url'' =
          Inr [Str (replicate 16777217 CHR ''a'')]"
      unfolding column_def frame_of_rows_def by (simp only: list.map fst_conv map_of.simps) simp
    show "map (featureExtraction UTF_8) [Str (replicate 16777217 CHR ''a'')] =
          map Inr [[0, 0, 0, 16777217, 1, 0, 0, 0, 0]]"
      by (simp only: list.map featureExtraction_long)
  qed
  then show ?thesis
    by (simp add: featureExtraction_long)
qed




section \<open>Addresses, ports and \<open>have_ip\<close>\<close>

lemma split_on_length: "length (split_on sep s) = Suc (length (filter (\<lambda>c. c = sep) s))"
  by (induction s) (auto split: list.splits simp: split_on_not_Nil)

lemma split_on_chars:
  "c \<in> set s \<Longrightarrow> c \<noteq> sep \<Longrightarrow> \<exists>p \<in> set (split_on sep s). c \<in> set p"
  by (induction s) (auto split: list.splits simp: split_on_not_Nil)

lemma map_exn_Inr: "map_exn f xs = Inr ys \<Longrightarrow> x \<in> set xs \<Longrightarrow> \<exists>y. f x = Inr y"
  by (induction xs arbitrary: ys) (auto split: sum.splits)

lemma parse_octet_digits: "parse_octet s = Inr n \<Longrightarrow> c \<in> set s \<Longrightarrow> is_ascii_digit c"
  by (auto simp: parse_octet_def list_all_iff split: if_splits)

lemma IPv4Address_chars:
  assumes "IPv4Address s = Inr n" and "c \<in> set s"
  shows "is_ascii_digit c \<or> c = CHR ''.''"
proof (cases "c = CHR ''.''")
  case False
  from assms(1) obtain octets where m: "map_exn parse_octet (split_on CHR ''.'' s) = Inr octets"
    by (auto simp: IPv4Address_def IPv4_ip_int_from_string_def split: if_splits sum.splits)
  from split_on_chars [OF assms(2) False] obtain p where
    p: "p \<in> set (split_on CHR ''.'' s)" "c \<in> set p" by blast
  from map_exn_Inr [OF m p(1)] obtain y where "parse_octet p = Inr y" by blast
  with p(2) show ?thesis by (auto dest: parse_octet_digits)
qed simp

lemma parse_hextet_chars: "parse_hextet s = Inr n \<Longrightarrow> c \<in> set s \<Longrightarrow> is_hex_digit c"
  by (auto simp: parse_hextet_def list_all_iff split: if_splits)

lemma digit_is_hex: "is_ascii_digit c \<Longrightarrow> is_hex_digit c"
  by (auto simp: is_ascii_digit_def is_hex_digit_def)

lemma skip_index_Some:
  assumes "skip_index parts = Inr (Some i)"
  shows "1 \<le> i \<and> i < length parts - 1 \<and> parts ! i = []"
proof -
  from assms have "filter (\<lambda>i. parts ! i = []) [1 ..< length parts - 1] = [i]"
    by (auto simp: skip_index_def split: list.splits)
  then have "i \<in> set (filter (\<lambda>i. parts ! i = []) [1 ..< length parts - 1])" by simp
  then show ?thesis by auto
qed

lemma layout_cover:
  assumes s: "skip_index parts = Inr skip"
    and l: "hextet_layout parts skip = Inr (hi, lo, sk)"
    and j: "j < length parts"
  shows "j < hi \<or> length parts - lo \<le> j \<or> parts ! j = []"
proof (cases skip)
  case None
  with l j show ?thesis by (auto simp: hextet_layout_def split: if_splits)
next
  case (Some i)
  with s have i: "1 \<le> i" "i < length parts - 1" "parts ! i = []"
    using skip_index_Some by blast+
  from j have ne: "parts \<noteq> []" by auto
  then have h: "hd parts = parts ! 0" and t: "last parts = parts ! (length parts - 1)"
    by (simp_all add: hd_conv_nth last_conv_nth)
  consider "j < i" | "j = i" | "i < j" by linarith
  then show ?thesis
  proof cases
    case 1
    show ?thesis
    proof (cases "hd parts = []")
      case True
      with l Some have "i - 1 = 0"
        by (auto simp: hextet_layout_def Let_def split: if_splits)
      with 1 i have "j = 0" by linarith
      with True h show ?thesis by simp
    next
      case False
      with l Some have "hi = i"
        by (auto simp: hextet_layout_def Let_def split: if_splits)
      with 1 show ?thesis by simp
    qed
  next
    case 2
    with i show ?thesis by simp
  next
    case 3
    show ?thesis
    proof (cases "last parts = []")
      case True
      with l Some have "lo = 0" "length parts - i - 1 - 1 = 0"
        by (auto simp: hextet_layout_def Let_def split: if_splits)
      with 3 j i have "j = length parts - 1" by linarith
      with True t show ?thesis by simp
    next
      case False
      with l Some have "lo = length parts - i - 1"
        by (auto simp: hextet_layout_def Let_def split: if_splits)
      with 3 j i show ?thesis by auto
    qed
  qed
qed

lemma IPv6_parts_checked:
  assumes s: "skip_index parts = Inr skip"
    and l: "hextet_layout parts skip = Inr (hi, lo, sk)"
    and a: "map_exn parse_hextet (take hi parts) = Inr xs"
    and b: "map_exn parse_hextet (drop (length parts - lo) parts) = Inr ys"
    and p: "p \<in> set parts" and c: "c \<in> set p"
  shows "is_hex_digit c"
proof -
  from p obtain j where j: "j < length parts" "p = parts ! j"
    by (auto simp: in_set_conv_nth)
  from c j have "parts ! j \<noteq> []" by auto
  with layout_cover [OF s l j(1)] consider "j < hi" | "length parts - lo \<le> j" by blast
  then have "p \<in> set (take hi parts) \<or> p \<in> set (drop (length parts - lo) parts)"
  proof cases
    case 1
    with j have "p \<in> set (take hi parts)"
      by (auto simp: in_set_conv_nth intro!: exI [of _ j])
    then show ?thesis ..
  next
    case 2
    with j have "p = drop (length parts - lo) parts ! (j - (length parts - lo))"
      and "j - (length parts - lo) < length (drop (length parts - lo) parts)"
      by auto
    then have "p \<in> set (drop (length parts - lo) parts)"
      using nth_mem by metis
    then show ?thesis ..
  qed
  then obtain y where "parse_hextet p = Inr y"
    using map_exn_Inr [OF a] map_exn_Inr [OF b] by blast
  with c show ?thesis using parse_hextet_chars by blast
qed

lemma ipv4_suffix_chars:
  assumes s: "ipv4_suffix parts0 = Inr parts" and ne: "parts0 \<noteq> []"
    and h: "\<And>p c. p \<in> set parts \<Longrightarrow> c \<in> set p \<Longrightarrow> is_hex_digit c"
    and p: "p \<in> set parts0" and c: "c \<in> set p"
  shows "is_hex_digit c \<or> c = CHR ''.''"
proof (cases "CHR ''.'' \<in> set (last parts0)")
  case False
  with s have "parts = parts0" by (simp add: ipv4_suffix_def)
  with h p c show ?thesis by blast
next
  case True
  with s obtain v where v: "IPv4Address (last parts0) = Inr v"
    and eq: "parts = butlast parts0 @
               [format_hex ((v div 65536) mod 65536), format_hex (v mod 65536)]"
    by (auto simp: ipv4_suffix_def split: sum.splits)
  from eq have ps: "set (butlast parts0) \<subseteq> set parts" by auto
  from ne have "parts0 = butlast parts0 @ [last parts0]" by simp
  then have "set parts0 = set (butlast parts0) \<union> {last parts0}"
    by (metis Un_insert_right list.simps(15) set_append sup_bot.right_neutral empty_set)
  with p consider "p \<in> set (butlast parts0)" | "p = last parts0" by blast
  then show ?thesis
  proof cases
    case 1
    with ps h c show ?thesis by blast
  next
    case 2
    with v c show ?thesis using IPv4Address_chars digit_is_hex by blast
  qed
qed

lemma IPv6_ip_int_chars:
  assumes "IPv6_ip_int_from_string s = Inr n" and c: "c \<in> set s"
  shows "is_hex_digit c \<or> c = CHR '':'' \<or> c = CHR ''.''"
proof (cases "c = CHR '':''")
  case False
  from assms(1) obtain parts skip hi lo sk xs ys where
      f: "ipv4_suffix (split_on CHR '':'' s) = Inr parts"
      and k: "skip_index parts = Inr skip"
      and l: "hextet_layout parts skip = Inr (hi, lo, sk)"
      and a: "map_exn parse_hextet (take hi parts) = Inr xs"
      and b: "map_exn parse_hextet (drop (length parts - lo) parts) = Inr ys"
    by (auto simp: IPv6_ip_int_from_string_def split: if_splits sum.splits prod.splits)
  from split_on_chars [OF c False] obtain p where
    p: "p \<in> set (split_on CHR '':'' s)" "c \<in> set p" by blast
  have "is_hex_digit c \<or> c = CHR ''.''"
    by (rule ipv4_suffix_chars [OF f split_on_not_Nil _ p])
       (rule IPv6_parts_checked [OF k l a b])
  then show ?thesis by blast
qed simp

lemma IPv6_ip_int_colons:
  "IPv6_ip_int_from_string s = Inr n \<Longrightarrow> 2 \<le> length (filter (\<lambda>c. c = CHR '':'') s)"
  using split_on_length [of "CHR '':''" s]
  by (auto simp: IPv6_ip_int_from_string_def split: if_splits)

lemma ip_address_chars:
  assumes a: "ip_address s = Inr addr" and n: "CHR ''%'' \<notin> set s"
  shows "(\<forall>c \<in> set s. is_hex_digit c \<or> c = CHR '':'' \<or> c = CHR ''.'') \<and>
         (CHR '':'' \<in> set s \<longrightarrow> 2 \<le> length (filter (\<lambda>c. c = CHR '':'') s))"
proof (cases "IPv4Address s")
  case (Inr v)
  then have "\<forall>c \<in> set s. is_ascii_digit c \<or> c = CHR ''.''"
    using IPv4Address_chars by blast
  moreover have "\<not> is_ascii_digit CHR '':''" by (simp add: is_ascii_digit_def)
  ultimately show ?thesis using digit_is_hex by auto
next
  case (Inl e)
  from n have t: "takeWhile (\<lambda>c. c \<noteq> CHR ''%'') s = s"
    by auto
  from a Inl n obtain v where "IPv6_ip_int_from_string s = Inr v"
    by (auto simp: ip_address_def IPv6Address_def split_scope_id_def partition_on_def t
          split: if_splits sum.splits prod.splits)
  then show ?thesis using IPv6_ip_int_chars IPv6_ip_int_colons by blast
qed

lemma port_Some_colon:
  assumes p: "port r = Inr (Some n)"
    and a: "CHR ''@'' \<notin> set (netloc r)" and b: "CHR ''['' \<notin> set (netloc r)"
  shows "length (filter (\<lambda>c. c = CHR '':'') (netloc r)) = 1"
proof -
  let ?s = "netloc r"
  let ?port = "drop 1 (dropWhile (\<lambda>c. c \<noteq> CHR '':'') ?s)"
  from a b have h: "snd (hostinfo r) = (if ?port = [] then None else Some ?port)"
    by (simp add: hostinfo_def rpartition_on_def partition_on_def Let_def)
  with p have ne: "?port \<noteq> []" and d: "list_all is_ascii_digit ?port"
    by (auto simp: port_def split: if_splits option.splits)
  from ne obtain rest where dw: "dropWhile (\<lambda>c. c \<noteq> CHR '':'') ?s = CHR '':'' # rest"
    by (cases "dropWhile (\<lambda>c. c \<noteq> CHR '':'') ?s") (auto simp: dropWhile_eq_Cons_conv)
  with d have r: "list_all is_ascii_digit rest" by simp
  have "\<not> is_ascii_digit CHR '':''" by (simp add: is_ascii_digit_def)
  with r have fr: "filter (\<lambda>c. c = CHR '':'') rest = []"
    by (auto simp: filter_empty_conv list_all_iff)
  have ft: "filter (\<lambda>c. c = CHR '':'') (takeWhile (\<lambda>c. c \<noteq> CHR '':'') ?s) = []"
    by (auto simp: filter_empty_conv dest: set_takeWhileD)
  have "?s = takeWhile (\<lambda>c. c \<noteq> CHR '':'') ?s @ CHR '':'' # rest"
    using takeWhile_dropWhile_id [of "\<lambda>c. c \<noteq> CHR '':''" ?s] dw by simp
  then have "filter (\<lambda>c. c = CHR '':'') ?s =
             filter (\<lambda>c. c = CHR '':'') (takeWhile (\<lambda>c. c \<noteq> CHR '':'') ?s @ CHR '':'' # rest)"
    by simp
  then show ?thesis by (simp add: fr ft)
qed

lemma ip_address_with_port:
  assumes p: "port r = Inr (Some n)" and n: "CHR ''%'' \<notin> set (netloc r)"
  shows "\<exists>e. ip_address (netloc r) = Inl e"
proof (cases "ip_address (netloc r)")
  case (Inr addr)
  from ip_address_chars [OF Inr n]
  have ch: "\<forall>c \<in> set (netloc r). is_hex_digit c \<or> c = CHR '':'' \<or> c = CHR ''.''"
    and co: "CHR '':'' \<in> set (netloc r) \<longrightarrow> 2 \<le> length (filter (\<lambda>c. c = CHR '':'') (netloc r))"
    by blast+
  have "\<not> is_hex_digit CHR ''@''" "\<not> is_hex_digit CHR ''[''"
    by (simp_all add: is_hex_digit_def)
  with ch have a: "CHR ''@'' \<notin> set (netloc r)" and b: "CHR ''['' \<notin> set (netloc r)"
    by auto
  from port_Some_colon [OF p a b]
  have one: "length (filter (\<lambda>c. c = CHR '':'') (netloc r)) = 1" .
  then have "filter (\<lambda>c. c = CHR '':'') (netloc r) \<noteq> []" by auto
  then have "CHR '':'' \<in> set (netloc r)" by (auto simp: filter_empty_conv)
  with co one show ?thesis by simp
qed blast

lemmas port_defs = port_def hostinfo_def rpartition_on_def partition_on_def Let_def
  is_ascii_digit_def int_of_digits_def digit_value_def

lemma ip_scoped: "ip_address ''::1%41@example.com:80'' = Inr (IPv6 1 (Some ''41@example.com:80''))"
  by (simp add: ip_address_defs skip_index_def hextet_layout_def ipv4_suffix_def parse_hextet_def
      is_hex_digit_def int_of_digits_def digit_value_def shift_in_def upt_rec)

text \<open>
  C10 (as amended). For every URL that \<^verbatim>\<open>urlparse\<close> accepts, whose authority holds
  no \<^verbatim>\<open>%\<close> and has an explicit port (the \<^verbatim>\<open>port\<close> attribute of the parse result is
  an integer), \<^verbatim>\<open>ip_address\<close> rejects the authority and \<open>have_ip\<close> is 0, also when
  the host part alone is an IP literal: the address parse is given the whole
  authority, port included.
\<close>

theorem have_ip_zero_with_port:
  assumes "urlparse (Str url) = Inr parsed"
    and "port parsed = Inr (Some n)"
    and "CHR ''%'' \<notin> set (netloc parsed)"
  shows "\<exists>v. featureExtraction out (Str url) = Inr v \<and> v ! 1 = 0"
proof -
  from ip_address_with_port [OF assms(2,3)] obtain e where
    "ip_address (netloc parsed) = Inl e" by blast
  then show ?thesis
    by (simp add: featureExtraction_returned [OF featureExtraction_try_Str [OF assms(1)]])
qed

theorem have_ip_zero_with_port_witness:
  "urlparse (Str ''http://1.2.3.4:80/'') =
     Inr \<lparr>scheme = ''http'', netloc = ''1.2.3.4:80'', path = ''/'',
          params = [], query = [], fragment = []\<rparr> \<and>
   port \<lparr>scheme = ''http'', netloc = ''1.2.3.4:80'', path = ''/'',
          params = [], query = [], fragment = []\<rparr> = Inr (Some 80) \<and>
   (\<exists>v. featureExtraction UTF_8 (Str ''http://1.2.3.4:80/'') = Inr v \<and> v ! 1 = 0)"
proof -
  have u: "urlparse (Str ''http://1.2.3.4:80/'') =
     Inr \<lparr>scheme = ''http'', netloc = ''1.2.3.4:80'', path = ''/'',
          params = [], query = [], fragment = []\<rparr>"
    by (simp add: urlparse_defs)
  have p: "port \<lparr>scheme = ''http'', netloc = ''1.2.3.4:80'', path = ''/'',
          params = [], query = [], fragment = []\<rparr> = Inr (Some 80)"
    by (simp add: port_defs)
  show ?thesis
    using have_ip_zero_with_port [OF u p, of UTF_8] u p by simp
qed

text \<open>
  C10 as stated fails: in \<^verbatim>\<open>http://::1%41@example.com:80/\<close> the host is
  \<^verbatim>\<open>example.com\<close> and the port is 80, yet the whole authority is an IPv6 literal
  with the scope id \<^verbatim>\<open>41@example.com:80\<close>, and \<open>have_ip\<close> is 1.
\<close>

theorem have_ip_one_with_port:
  "urlparse (Str ''http://::1%41@example.com:80/'') =
     Inr \<lparr>scheme = ''http'', netloc = ''::1%41@example.com:80'', path = ''/'',
          params = [], query = [], fragment = []\<rparr> \<and>
   port \<lparr>scheme = ''http'', netloc = ''::1%41@example.com:80'', path = ''/'',
          params = [], query = [], fragment = []\<rparr> = Inr (Some 80) \<and>
   fst (hostinfo \<lparr>scheme = ''http'', netloc = ''::1%41@example.com:80'', path = ''/'',
          params = [], query = [], fragment = []\<rparr>) = ''example.com'' \<and>
   featureExtraction UTF_8 (Str ''http://::1%41@example.com:80/'') =
     Inr [21, 1, 1, 29, 0, 0, 0, 0, 0]"
proof -
  have u: "urlparse (Str ''http://::1%41@example.com:80/'') =
     Inr \<lparr>scheme = ''http'', netloc = ''::1%41@example.com:80'', path = ''/'',
          params = [], query = [], fragment = []\<rparr>"
    by (simp add: urlparse_defs)
  have p: "port \<lparr>scheme = ''http'', netloc = ''::1%41@example.com:80'', path = ''/'',
          params = [], query = [], fragment = []\<rparr> = Inr (Some 80)"
    by (simp add: port_defs)
  have h: "fst (hostinfo \<lparr>scheme = ''http'', netloc = ''::1%41@example.com:80'', path = ''/'',
          params = [], query = [], fragment = []\<rparr>) = ''example.com''"
    by (simp add: port_defs)
  show ?thesis
    by (simp add: u p h featureExtraction_returned [OF featureExtraction_try_Str [OF u]]
          ip_scoped)
qed

section \<open>Properties of the two scripts\<close>

lemma dirname_out: "dirname tflite_output_path = ''model_save''"
  by (simp add: dirname_def tflite_output_path_def rfind_def slice_to_def)

lemma print_loading:
  "print (''[INFO] Loading model from '' @ model_keras_path) w =
     Inr (w\<lparr>console := console w @ [''[INFO] Loading model from '' @ model_keras_path]\<rparr>)"
  by (rule print_ascii) (simp add: model_keras_path_def)

lemma print_created:
  "print (''[INFO] TFLite model created at '' @ tflite_output_path) w =
     Inr (w\<lparr>console := console w @ [''[INFO] TFLite model created at '' @ tflite_output_path]\<rparr>)"
  by (rule print_ascii) (simp add: tflite_output_path_def)

lemma example_export:
  "files (snd (convert_to_tflite example_tflite_lib saved_model_world)) =
     (files saved_model_world)(tflite_output_path \<mapsto> ''TFL3weights'')"
  unfolding convert_to_tflite_def print_loading print_created
  by (simp add: load_and_convert_def example_tflite_lib_def saved_model_world_def
        model_keras_path_def makedirs_def write_file_def ancestors_def tflite_output_path_def
        dirname_def rfind_def slice_to_def)

text \<open>
  C8. In every run of \<^verbatim>\<open>convert_to_tflite.py\<close>: if loading the saved model raises,
  or building the converter raises, or the conversion raises, the script ends with
  that exception and has created no directory and written no file. And if the run
  has changed the files at all, then loading and conversion both succeeded and the
  one change is the output path, now holding the complete converted model.
\<close>

theorem convert_to_tflite_artifact:
  "((load_model lib (files w) model_keras_path = Inl e \<or>
     (\<exists>model. load_model lib (files w) model_keras_path = Inr model \<and>
        (from_keras_model lib model = Inl e \<or>
         (\<exists>converter. from_keras_model lib model = Inr converter \<and>
            convert lib converter = Inl e)))) \<longrightarrow>
      fst (convert_to_tflite lib w) = Inl e \<and>
      files (snd (convert_to_tflite lib w)) = files w \<and>
      dirs (snd (convert_to_tflite lib w)) = dirs w) \<and>
   (files (snd (convert_to_tflite lib w)) \<noteq> files w \<longrightarrow>
      (\<exists>data. load_and_convert lib (files w) = Inr data \<and>
         files (snd (convert_to_tflite lib w)) = (files w)(tflite_output_path \<mapsto> data)))"
  unfolding convert_to_tflite_def print_loading print_created
  by (auto simp: load_and_convert_def makedirs_def write_file_def split: sum.splits if_splits)

theorem convert_to_tflite_artifact_witness:
  "load_model example_tflite_lib (files empty_world) model_keras_path = Inl FileNotFoundError \<and>
   fst (convert_to_tflite example_tflite_lib empty_world) = Inl FileNotFoundError \<and>
   files (snd (convert_to_tflite example_tflite_lib empty_world)) = files empty_world \<and>
   dirs (snd (convert_to_tflite example_tflite_lib empty_world)) = dirs empty_world \<and>
   files (snd (convert_to_tflite example_tflite_lib saved_model_world)) \<noteq> files saved_model_world \<and>
   load_and_convert example_tflite_lib (files saved_model_world) = Inr ''TFL3weights'' \<and>
   files (snd (convert_to_tflite example_tflite_lib saved_model_world)) =
     (files saved_model_world)(tflite_output_path \<mapsto> ''TFL3weights'')"
proof -
  have l: "load_model example_tflite_lib (files empty_world) model_keras_path = Inl FileNotFoundError"
    by (simp add: example_tflite_lib_def empty_world_def)
  have c: "load_and_convert example_tflite_lib (files saved_model_world) = Inr ''TFL3weights''"
    by (simp add: load_and_convert_def example_tflite_lib_def saved_model_world_def model_keras_path_def)
  have "files saved_model_world tflite_output_path = None"
    by (simp add: saved_model_world_def tflite_output_path_def)
  then have n: "files (snd (convert_to_tflite example_tflite_lib saved_model_world)) \<noteq>
                files saved_model_world"
    unfolding example_export by (metis fun_upd_same option.distinct(1))
  show ?thesis
    using convert_to_tflite_artifact [of example_tflite_lib empty_world FileNotFoundError]
      convert_to_tflite_artifact [of example_tflite_lib saved_model_world FileNotFoundError]
      l n c example_export
    by simp
qed

text \<open>
  C7 (the code departs from the claim). \<^verbatim>\<open>train_and_save_model\<close> never returns
  \<^verbatim>\<open>None\<close>: when it returns, it returns the history. A failing load (\<^verbatim>\<open>read_csv\<close>
  raising) or a failing fit leaves the function as that exception, with nothing
  printed, so the caller's test \<^verbatim>\<open>history is None\<close> is never true.
\<close>

theorem train_and_save_model_raises:
  "fst (train_and_save_model lib csv_path model_path w) \<noteq> Inr None \<and>
   (read_csv lib (files w) csv_path = Inl e \<longrightarrow>
      train_and_save_model lib csv_path model_path w = (Inl e, w)) \<and>
   (\<forall>df X y held_out.
      read_csv lib (files w) csv_path = Inr df \<and> build_X_y (stdout w) df = Inr (X, y) \<and>
      train_test_split lib X y = Inr held_out \<and> build_and_fit lib X y = Inl e \<longrightarrow>
      train_and_save_model lib csv_path model_path w = (Inl e, w))"
  by (auto simp: train_and_save_model_def split: sum.splits prod.splits option.splits)

theorem train_and_save_model_raises_witness:
  "read_csv example_training_lib (files empty_world) ''data/dataset.csv'' = Inl FileNotFoundError \<and>
   train_and_save_model example_training_lib ''data/dataset.csv'' ''model_save/model.keras'' empty_world
     = (Inl FileNotFoundError, empty_world) \<and>
   main example_training_lib empty_world = (Inl FileNotFoundError, empty_world)"
proof -
  have o: "read_csv example_training_lib (files empty_world) ''data/dataset.csv'' = Inl FileNotFoundError"
    by (simp add: example_training_lib_def empty_world_def)
  have t: "train_and_save_model example_training_lib ''data/dataset.csv'' ''model_save/model.keras''
             empty_world = (Inl FileNotFoundError, empty_world)"
    using train_and_save_model_raises
      [of example_training_lib "''data/dataset.csv''" "''model_save/model.keras''" empty_world
         FileNotFoundError] o
    by simp
  show ?thesis
    by (simp add: o t main_def)
qed

lemma example_frame_dataset:
  "example_frame (''url,label'' @ [CHR 0x0A] @ ''http://bit.ly/x,1'') =
     [(''url'', [Str ''http://bit.ly/x'']), (''label'', [Str ''1''])]"
  by (simp add: example_frame_def upt_rec)

lemma example_dataset:
  "build_X_y UTF_8 [(''url'', [Str ''http://bit.ly/x'']), (''label'', [Str ''1''])] =
     Inr ([[Finite 6, Finite 0, Finite 0, Finite 15, Finite 1, Finite 0, Finite 0, Finite 1,
            Finite 0]],
          [Str ''1''])"
proof (rule build_X_y_returns)
  show "column [(''url'', [Str ''http://bit.ly/x'']), (''label'', [Str ''1''])] ''label'' =
        Inr [Str ''1'']"
    by (simp add: column_def)
  show "column [(''url'', [Str ''http://bit.ly/x'']), (''label'', [Str ''1''])] ''url'' =
        Inr [Str ''http://bit.ly/x'']"
    by (simp add: column_def)
  show "map (featureExtraction UTF_8) [Str ''http://bit.ly/x''] =
        map Inr [[6, 0, 0, 15, 1, 0, 0, 1, 0]]"
    by (simp add: featureExtraction_bit_ly)
  show "np_array_float32 [[6, 0, 0, 15, 1, 0, 0, 1, 0]] =
        Inr [[Finite 6, Finite 0, Finite 0, Finite 15, Finite 1, Finite 0, Finite 0, Finite 1,
              Finite 0]]"
    by (simp add: np_array_float32_def to_float32_exact)
qed

text \<open>
  C6 (the code departs from the claim). \<^verbatim>\<open>train_and_save_model\<close> hands
  \<^verbatim>\<open>model_path\<close> to the saver and creates no directory itself. With a saver that
  writes the model as a file at that path, a missing parent directory makes the run
  end in an exception; no directory has been created and no model file written.
\<close>

theorem train_and_save_model_no_makedirs:
  assumes "save lib = save_as_file blob"
    and "dirname model_path \<noteq> []"
    and "dirname model_path \<notin> dirs w"
  shows "(\<exists>e. fst (train_and_save_model lib csv_path model_path w) = Inl e) \<and>
         dirs (snd (train_and_save_model lib csv_path model_path w)) = dirs w \<and>
         files (snd (train_and_save_model lib csv_path model_path w)) = files w"
proof -
  have k: False
    if "print_lines report w = (r, w1)" and "save_as_file blob model model_path w1 = Inr w2"
    for report r w1 model w2
    using print_lines_unchanged [OF that(1)] that(2) assms(2,3)
    by (auto simp: save_as_file_def write_file_def split: if_splits)
  show ?thesis
    unfolding train_and_save_model_def assms(1)
    by (auto split: sum.splits prod.splits option.splits dest: print_lines_unchanged k)
qed

theorem train_and_save_model_no_makedirs_witness:
  "train_and_save_model example_training_lib ''data/dataset.csv'' ''model_save/model.keras''
     dataset_world =
     (Inl FileNotFoundError, dataset_world\<lparr>console := [''Accuracy: 100.00%'']\<rparr>)"
proof -
  have o: "read_csv example_training_lib (files dataset_world) ''data/dataset.csv'' =
           Inr [(''url'', [Str ''http://bit.ly/x'']), (''label'', [Str ''1''])]"
    by (simp add: example_training_lib_def dataset_world_def example_frame_dataset
          del: append.simps)
  have d: "dirname ''model_save/model.keras'' = ''model_save''"
    by (simp add: dirname_def rfind_def slice_to_def)
  have s: "save example_training_lib = save_as_file (\<lambda>model. model)"
    by (simp add: example_training_lib_def)
  have u: "stdout dataset_world = UTF_8"
    by (simp add: dataset_world_def)
  have p: "print_lines [''Accuracy: 100.00%''] dataset_world =
           (None, dataset_world\<lparr>console := [''Accuracy: 100.00%'']\<rparr>)"
    by (simp add: print_def u print_line_UTF_8 dataset_world_def)
  have w: "write_file ''model_save/model.keras'' ''weights''
             (dataset_world\<lparr>console := [''Accuracy: 100.00%'']\<rparr>) = Inl FileNotFoundError"
    by (simp add: write_file_def d dataset_world_def)
  have tts: "train_test_split example_training_lib X y = Inr ()" for X y
    by (simp add: example_training_lib_def)
  have bf: "build_and_fit example_training_lib X y = Inr (''weights'', [''epoch 1''])" for X y
    by (simp add: example_training_lib_def)
  have ev: "evaluate example_training_lib model held_out = Inr [''Accuracy: 100.00%'']"
    for model held_out
    by (simp add: example_training_lib_def)
  have sv: "save example_training_lib ''weights'' ''model_save/model.keras''
              (dataset_world\<lparr>console := [''Accuracy: 100.00%'']\<rparr>) = Inl FileNotFoundError"
    by (simp only: s save_as_file_def w)
  have r: "train_and_save_model example_training_lib ''data/dataset.csv''
             ''model_save/model.keras'' dataset_world =
           (Inl FileNotFoundError, dataset_world\<lparr>console := [''Accuracy: 100.00%'']\<rparr>)"
    by (simp only: train_and_save_model_def o u example_dataset tts bf ev p sv
          sum.case prod.case option.case)
  from train_and_save_model_no_makedirs [OF s, of "''model_save/model.keras''" dataset_world
        "''data/dataset.csv''"] d
  have "\<exists>e. fst (train_and_save_model example_training_lib ''data/dataset.csv''
                  ''model_save/model.keras'' dataset_world) = Inl e"
    by (simp add: dataset_world_def)
  with r show ?thesis by simp
qed

end
